theory Spec2Isabelle
  imports Complex_Main
begin

section \<open>Values, exceptions and the external libraries\<close>

text \<open>
  The program is one Python module, \<^verbatim>\<open>teams_chatgpt_bot_captcha.py\<close>. It drives two
  browsers through Selenium, keeps three small files (configuration, statistics, PID) and
  idles in an asyncio loop. Everything outside the module (Selenium, psutil, the clock,
  asyncio, the json and datetime modules) is a parameter of the model: a record of
  operations on an abstract world \<open>'w\<close>, each of which answers with a value or with an
  exception and the next world. The module's own objects, the file system it reads and
  writes, its log and its standard output are explicit state.
\<close>

text \<open>
  JSON values, as \<^verbatim>\<open>json.load\<close> hands them to the program: a configuration is a
  \<^verbatim>\<open>Dict[str, Any]\<close>, so a credential can hold any of them. A Python dict is an
  association list read with \<open>map_of\<close> and written with \<open>dict_set\<close> below.
\<close>

datatype json =
    JNull
  | JBool bool
  | JInt int
  | JFloat real
  | JStr string
  | JArr "json list"
  | JObj "(string \<times> json) list"

type_synonym dict = "(string \<times> json) list"

text \<open>Python's truth value of an object: \<^verbatim>\<open>not v\<close> is \<open>\<not> truthy v\<close>.\<close>

fun truthy :: "json \<Rightarrow> bool" where
  "truthy JNull = False"
| "truthy (JBool b) = b"
| "truthy (JInt n) = (n \<noteq> 0)"
| "truthy (JFloat x) = (x \<noteq> 0)"
| "truthy (JStr s) = (s \<noteq> [])"
| "truthy (JArr xs) = (xs \<noteq> [])"
| "truthy (JObj kvs) = (kvs \<noteq> [])"

text \<open>\<^verbatim>\<open>type(v).__name__\<close>, as Python's error messages print it.\<close>

fun type_name :: "json \<Rightarrow> string" where
  "type_name JNull = ''NoneType''"
| "type_name (JBool _) = ''bool''"
| "type_name (JInt _) = ''int''"
| "type_name (JFloat _) = ''float''"
| "type_name (JStr _) = ''str''"
| "type_name (JArr _) = ''list''"
| "type_name (JObj _) = ''dict''"

text \<open>\<^verbatim>\<open>d[k] = v\<close>: replace the binding in place, or append a new key at the end.\<close>

fun dict_set :: "dict \<Rightarrow> string \<Rightarrow> json \<Rightarrow> dict" where
  "dict_set [] k v = [(k, v)]"
| "dict_set ((k', v') # kvs) k v =
     (if k' = k then (k, v) # kvs else (k', v') # dict_set kvs k v)"

text \<open>\<^verbatim>\<open>d.update(e)\<close>: every binding of \<open>e\<close> is stored into \<open>d\<close>, in order.\<close>

fun dict_update :: "dict \<Rightarrow> dict \<Rightarrow> dict" where
  "dict_update d [] = d"
| "dict_update d ((k, v) # kvs) = dict_update (dict_set d k v) kvs"

text \<open>
  Exceptions. Every exception the libraries raise here is a subclass of Python's
  \<^verbatim>\<open>Exception\<close>, so \<^verbatim>\<open>except Exception\<close> catches each value of this type; the
  class is kept for the two narrower handlers of the module
  (\<^verbatim>\<open>except TimeoutException\<close>, \<^verbatim>\<open>except psutil.NoSuchProcess\<close>).
  \<open>exn_str\<close> is \<^verbatim>\<open>str(e)\<close>, what an f-string prints for \<^verbatim>\<open>{e}\<close>.
\<close>

datatype exn_class =
    TimeoutException
  | NoSuchElementException
  | WebDriverException
  | NoSuchProcess
  | ZombieProcess
  | AccessDenied
  | ValueError
  | TypeError
  | KeyError
  | AttributeError
  | OSError
  | JSONDecodeError
  | OtherException

datatype py_exn = Exn (exn_class: exn_class) (exn_str: string)

text \<open>\<^verbatim>\<open>psutil.ZombieProcess\<close> is a subclass of \<^verbatim>\<open>psutil.NoSuchProcess\<close>.\<close>

definition is_NoSuchProcess :: "py_exn \<Rightarrow> bool" where
  "is_NoSuchProcess e = (exn_class e = NoSuchProcess \<or> exn_class e = ZombieProcess)"

definition is_TimeoutException :: "py_exn \<Rightarrow> bool" where
  "is_TimeoutException e = (exn_class e = TimeoutException)"

type_synonym drv = nat
type_synonym elem = nat
type_synonym timestamp = int

datatype locator = ById string | ByCss string | ByXpath string

datatype cond = presence_of_element_located locator | element_to_be_clickable locator

datatype signum = SIGINT | SIGTERM

record chrome_options =
  arguments :: "string list"
  experimental_options :: "(string \<times> json) list"

text \<open>
  The external world. Selenium: constructing a Chrome driver, its timeouts, navigation,
  element queries, \<^verbatim>\<open>WebDriverWait(d, t).until(c)\<close>, element actions and
  \<^verbatim>\<open>quit\<close>. \<^verbatim>\<open>time.sleep\<close> lets the world move on; \<^verbatim>\<open>asyncio.sleep\<close>
  also reports the signals the operating system delivered to the process while it slept.
  The remaining fields are the pure library functions the module calls;
  \<open>float_add_one\<close> is \<^verbatim>\<open>x + 1\<close> on a float, with the rounding of the machine's doubles.
\<close>

record 'w env =
  webdriver_Chrome :: "chrome_options \<Rightarrow> 'w \<Rightarrow> (py_exn + drv) \<times> 'w"
  set_page_load_timeout :: "drv \<Rightarrow> nat \<Rightarrow> 'w \<Rightarrow> (py_exn + unit) \<times> 'w"
  implicitly_wait :: "drv \<Rightarrow> nat \<Rightarrow> 'w \<Rightarrow> (py_exn + unit) \<times> 'w"
  driver_get :: "drv \<Rightarrow> string \<Rightarrow> 'w \<Rightarrow> (py_exn + unit) \<times> 'w"
  find_elements :: "drv \<Rightarrow> locator \<Rightarrow> 'w \<Rightarrow> (py_exn + elem list) \<times> 'w"
  find_element :: "drv \<Rightarrow> locator \<Rightarrow> 'w \<Rightarrow> (py_exn + elem) \<times> 'w"
  wait_until :: "drv \<Rightarrow> nat \<Rightarrow> cond \<Rightarrow> 'w \<Rightarrow> (py_exn + elem) \<times> 'w"
  elem_clear :: "elem \<Rightarrow> 'w \<Rightarrow> (py_exn + unit) \<times> 'w"
  send_keys :: "elem \<Rightarrow> json \<Rightarrow> 'w \<Rightarrow> (py_exn + unit) \<times> 'w"
  click :: "elem \<Rightarrow> 'w \<Rightarrow> (py_exn + unit) \<times> 'w"
  quit :: "drv \<Rightarrow> 'w \<Rightarrow> (py_exn + unit) \<times> 'w"
  time_sleep :: "nat \<Rightarrow> 'w \<Rightarrow> 'w"
  asyncio_sleep :: "json \<Rightarrow> 'w \<Rightarrow> (py_exn + signum list) \<times> 'w"
  datetime_now :: "'w \<Rightarrow> timestamp \<times> 'w"
  os_getpid :: "'w \<Rightarrow> int"
  psutil_Process :: "int \<Rightarrow> 'w \<Rightarrow> (py_exn + int) \<times> 'w"
  process_cmdline :: "int \<Rightarrow> 'w \<Rightarrow> (py_exn + string list) \<times> 'w"
  json_loads :: "string \<Rightarrow> py_exn + json"
  json_dumps :: "json \<Rightarrow> string"
  isoformat :: "timestamp \<Rightarrow> string"
  fromisoformat :: "json \<Rightarrow> py_exn + timestamp"
  total_seconds :: "timestamp \<Rightarrow> timestamp \<Rightarrow> json"
  int_of_stripped :: "string \<Rightarrow> py_exn + int"
  str_of_int :: "int \<Rightarrow> string"
  float_add_one :: "real \<Rightarrow> real"

section \<open>Program state\<close>

datatype level = INFO | WARNING | ERROR

text \<open>
  Every library call that reaches a browser is also appended to \<open>calls\<close>, a history
  that the program cannot read: it lets a theorem say that a call was, or was not, made.
\<close>

datatype call =
    NewChrome chrome_options
  | SetPageLoadTimeout drv nat
  | ImplicitlyWait drv nat
  | Get drv string
  | FindElements drv locator
  | FindElement drv locator
  | WaitUntil drv nat cond
  | Clear elem
  | SendKeys elem json
  | Click elem
  | Quit drv
  | TimeSleep nat
  | AsyncioSleep json

text \<open>
  \<open>files\<close> is the working directory (file name to content); opening, writing or removing
  a name in \<open>denied\<close> raises \<^verbatim>\<open>OSError\<close>. \<open>stats\<close> is \<^verbatim>\<open>BotStats.stats\<close>,
  \<open>pm_running\<close> is \<^verbatim>\<open>ProcessManager.running\<close>, \<open>handlers\<close> the signals for which
  \<^verbatim>\<open>signal.signal\<close> registered the module's handler, and the last three fields are
  the \<^verbatim>\<open>TeamsBot\<close> attributes of the same names.
\<close>

record 'w state =
  world :: 'w
  calls :: "call list"
  files :: "string \<rightharpoonup> string"
  denied :: "string set"
  stdout :: "string list"
  logs :: "(level \<times> string) list"
  stats :: dict
  pm_running :: bool
  handlers :: "signum list"
  teams_driver :: "drv option"
  chatgpt_driver :: "drv option"
  is_running :: bool

definition CONFIG_FILE :: string where "CONFIG_FILE = ''bot_config.json''"
definition STATS_FILE :: string where "STATS_FILE = ''bot_stats.json''"
definition PID_FILE :: string where "PID_FILE = ''bot.pid''"

definition logger :: "level \<Rightarrow> string \<Rightarrow> 'w state \<Rightarrow> 'w state" where
  "logger lv msg s = s\<lparr>logs := logs s @ [(lv, msg)]\<rparr>"

definition print :: "string \<Rightarrow> 'w state \<Rightarrow> 'w state" where
  "print msg s = s\<lparr>stdout := stdout s @ [msg]\<rparr>"

text \<open>A library call: the world answers, the world moves on, the history grows.\<close>

definition invoke ::
  "call \<Rightarrow> ('w \<Rightarrow> 'r \<times> 'w) \<Rightarrow> 'w state \<Rightarrow> 'r \<times> 'w state" where
  "invoke c f s =
     (case f (world s) of (r, w') \<Rightarrow> (r, s\<lparr>world := w', calls := calls s @ [c]\<rparr>))"

section \<open>Computations that may raise or never return\<close>

text \<open>
  A method body is a function from the state to \<open>None\<close> (it never returns) or to a
  result, \<open>Inl e\<close> for a raised exception and \<open>Inr v\<close> for a returned value, with the
  state it leaves behind.
\<close>

type_synonym ('w, 'a) prog = "'w state \<Rightarrow> ((py_exn + 'a) \<times> 'w state) option"

definition ret :: "'a \<Rightarrow> ('w, 'a) prog" where
  "ret x s = Some (Inr x, s)"

definition raise :: "py_exn \<Rightarrow> ('w, 'a) prog" where
  "raise e s = Some (Inl e, s)"

definition lift :: "('w state \<Rightarrow> (py_exn + 'a) \<times> 'w state) \<Rightarrow> ('w, 'a) prog" where
  "lift f s = Some (f s)"

definition effect :: "('w state \<Rightarrow> 'w state) \<Rightarrow> ('w, unit) prog" where
  "effect f s = Some (Inr (), f s)"

definition bnd :: "('w, 'a) prog \<Rightarrow> ('a \<Rightarrow> ('w, 'b) prog) \<Rightarrow> ('w, 'b) prog" where
  "bnd m k s =
     (case m s of
        None \<Rightarrow> None
      | Some (Inl e, s') \<Rightarrow> Some (Inl e, s')
      | Some (Inr x, s') \<Rightarrow> k x s')"

definition seq :: "('w, 'a) prog \<Rightarrow> ('w, 'b) prog \<Rightarrow> ('w, 'b) prog" where
  "seq m n = bnd m (\<lambda>_. n)"

text \<open>
  \<^verbatim>\<open>try: m  except C as e: h e\<close>, where \<open>catches\<close> says whether the raised exception is
  an instance of \<open>C\<close>; for \<^verbatim>\<open>except Exception\<close> it is \<open>\<lambda>_. True\<close>.
\<close>

definition try_except ::
  "('w, 'a) prog \<Rightarrow> (py_exn \<Rightarrow> bool) \<Rightarrow> (py_exn \<Rightarrow> ('w, 'a) prog) \<Rightarrow> ('w, 'a) prog" where
  "try_except m catches h s =
     (case m s of
        None \<Rightarrow> None
      | Some (Inl e, s') \<Rightarrow> (if catches e then h e s' else Some (Inl e, s'))
      | Some (Inr x, s') \<Rightarrow> Some (Inr x, s'))"

text \<open>
  \<^verbatim>\<open>try: m  finally: f\<close>: \<open>f\<close> runs whatever \<open>m\<close> did; an exception of \<open>f\<close> replaces
  the outcome of \<open>m\<close>.
\<close>

definition try_finally :: "('w, 'a) prog \<Rightarrow> ('w, unit) prog \<Rightarrow> ('w, 'a) prog" where
  "try_finally m f s =
     (case m s of
        None \<Rightarrow> None
      | Some (r, s') \<Rightarrow>
          (case f s' of
             None \<Rightarrow> None
           | Some (Inl e, s'') \<Rightarrow> Some (Inl e, s'')
           | Some (Inr _, s'') \<Rightarrow> Some (r, s'')))"

section \<open>The browser calls the module makes\<close>

definition call_find_elements :: "'w env \<Rightarrow> drv \<Rightarrow> locator \<Rightarrow> ('w, elem list) prog" where
  "call_find_elements E d b = lift (invoke (FindElements d b) (find_elements E d b))"

definition call_find_element :: "'w env \<Rightarrow> drv \<Rightarrow> locator \<Rightarrow> ('w, elem) prog" where
  "call_find_element E d b = lift (invoke (FindElement d b) (find_element E d b))"

definition call_get :: "'w env \<Rightarrow> drv \<Rightarrow> string \<Rightarrow> ('w, unit) prog" where
  "call_get E d url = lift (invoke (Get d url) (driver_get E d url))"

definition call_wait_until :: "'w env \<Rightarrow> drv \<Rightarrow> nat \<Rightarrow> cond \<Rightarrow> ('w, elem) prog" where
  "call_wait_until E d t c = lift (invoke (WaitUntil d t c) (wait_until E d t c))"

definition call_clear :: "'w env \<Rightarrow> elem \<Rightarrow> ('w, unit) prog" where
  "call_clear E x = lift (invoke (Clear x) (elem_clear E x))"

definition call_send_keys :: "'w env \<Rightarrow> elem \<Rightarrow> json \<Rightarrow> ('w, unit) prog" where
  "call_send_keys E x v = lift (invoke (SendKeys x v) (send_keys E x v))"

definition call_click :: "'w env \<Rightarrow> elem \<Rightarrow> ('w, unit) prog" where
  "call_click E x = lift (invoke (Click x) (click E x))"

definition call_quit :: "'w env \<Rightarrow> drv \<Rightarrow> ('w, unit) prog" where
  "call_quit E d = lift (invoke (Quit d) (quit E d))"

definition call_time_sleep :: "'w env \<Rightarrow> nat \<Rightarrow> 'w state \<Rightarrow> 'w state" where
  "call_time_sleep E n s = snd (invoke (TimeSleep n) (\<lambda>w. ((), time_sleep E n w)) s)"

section \<open>CAPTCHA detection\<close>

text \<open>
  The warning of line 169, as the bytes of its UTF-8 encoding (a warning sign with a
  variation selector, and an en dash).
\<close>

definition captcha_warning :: string where
  "captcha_warning =
     [CHR 0xE2, CHR 0x9A, CHR 0xA0, CHR 0xEF, CHR 0xB8, CHR 0x8F] @ '' Captcha detected '' @
     [CHR 0xE2, CHR 0x80, CHR 0x93] @ '' please solve it manually in the browser!''"

definition recaptcha_frame :: locator where "recaptcha_frame = ByCss ''iframe[src*='recaptcha']''"
definition hcaptcha_frame :: locator where "hcaptcha_frame = ByCss ''iframe[src*='hcaptcha']''"
definition recaptcha_div :: locator where "recaptcha_div = ByCss ''div.g-recaptcha''"

text \<open>
  The condition of line 168, \<^verbatim>\<open>A or B or C\<close> over three \<^verbatim>\<open>find_elements\<close> calls:
  a list is true when it is not empty, and \<^verbatim>\<open>or\<close> evaluates its right operand only when
  the left one is false. (In the file the two line continuations of this condition are
  followed by blanks instead of a line break; the model reads the condition they spell.)
\<close>

definition captcha_probe :: "'w env \<Rightarrow> drv \<Rightarrow> ('w, bool) prog" where
  "captcha_probe E d =
     bnd (call_find_elements E d recaptcha_frame) (\<lambda>a.
       if a \<noteq> [] then ret True
       else bnd (call_find_elements E d hcaptcha_frame) (\<lambda>b.
         if b \<noteq> [] then ret True
         else bnd (call_find_elements E d recaptcha_div) (\<lambda>c. ret (c \<noteq> []))))"

text \<open>
  \<^verbatim>\<open>detect_captcha\<close>: inside the \<^verbatim>\<open>try\<close>, a true condition logs the warning and
  returns \<open>True\<close>; a false condition leaves the \<^verbatim>\<open>try\<close> and an exception is passed
  over, both reaching \<^verbatim>\<open>return False\<close>.
\<close>

definition detect_captcha :: "'w env \<Rightarrow> drv \<Rightarrow> ('w, bool) prog" where
  "detect_captcha E d =
     try_except
       (bnd (captcha_probe E d) (\<lambda>found.
          if found then seq (effect (logger WARNING captcha_warning)) (ret True)
          else ret False))
       (\<lambda>_. True)
       (\<lambda>_. ret False)"

section \<open>Files\<close>

text \<open>
  \<^verbatim>\<open>os.path.exists\<close> never raises. \<^verbatim>\<open>open(p, 'r')\<close> with \<^verbatim>\<open>read\<close>,
  \<^verbatim>\<open>open(p, 'w')\<close> with one write of the whole content, and \<^verbatim>\<open>os.remove\<close> raise
  \<^verbatim>\<open>OSError\<close> on a denied or (for reading and removing) missing name and leave the
  directory as it was.
\<close>

definition path_exists :: "string \<Rightarrow> 'w state \<Rightarrow> bool" where
  "path_exists p s = (files s p \<noteq> None)"

definition read_file :: "string \<Rightarrow> ('w, string) prog" where
  "read_file p s =
     (if p \<in> denied s then raise (Exn OSError (''Permission denied: '' @ p)) s
      else case files s p of
             None \<Rightarrow> raise (Exn OSError (''No such file or directory: '' @ p)) s
           | Some c \<Rightarrow> ret c s)"

definition write_file :: "string \<Rightarrow> string \<Rightarrow> ('w, unit) prog" where
  "write_file p c s =
     (if p \<in> denied s then raise (Exn OSError (''Permission denied: '' @ p)) s
      else ret () (s\<lparr>files := (files s)(p \<mapsto> c)\<rparr>))"

definition remove_file :: "string \<Rightarrow> ('w, unit) prog" where
  "remove_file p s =
     (if p \<in> denied s then raise (Exn OSError (''Permission denied: '' @ p)) s
      else case files s p of
             None \<Rightarrow> raise (Exn OSError (''No such file or directory: '' @ p)) s
           | Some _ \<Rightarrow> ret () (s\<lparr>files := (files s)(p := None)\<rparr>))"

text \<open>A library call that is not a browser call (the clock, psutil): no history entry.\<close>

definition ask :: "('w \<Rightarrow> 'r \<times> 'w) \<Rightarrow> 'w state \<Rightarrow> 'r \<times> 'w state" where
  "ask f s = (case f (world s) of (r, w') \<Rightarrow> (r, s\<lparr>world := w'\<rparr>))"

definition now :: "'w env \<Rightarrow> ('w, timestamp) prog" where
  "now E s = (case ask (datetime_now E) s of (t, s') \<Rightarrow> Some (Inr t, s'))"

text \<open>\<^verbatim>\<open>d[k]\<close> raises \<^verbatim>\<open>KeyError\<close> on a missing key; \<^verbatim>\<open>d.get(k, dflt)\<close> does not.\<close>

definition subscript :: "dict \<Rightarrow> string \<Rightarrow> ('w, json) prog" where
  "subscript d k =
     (case map_of d k of
        None \<Rightarrow> raise (Exn KeyError ([CHR 0x27] @ k @ [CHR 0x27]))
      | Some v \<Rightarrow> ret v)"

definition dict_get :: "dict \<Rightarrow> string \<Rightarrow> json \<Rightarrow> json" where
  "dict_get d k dflt = (case map_of d k of None \<Rightarrow> dflt | Some v \<Rightarrow> v)"

section \<open>BotStats\<close>

text \<open>
  \<^verbatim>\<open>x + 1\<close> on a loaded value: integers are unbounded, a bool counts as 0 or 1, a
  float is added as the machine adds doubles, and \<^verbatim>\<open>None\<close>, strings, lists and
  dicts raise \<^verbatim>\<open>TypeError\<close> with Python's message for each.
\<close>

fun plus_one :: "'w env \<Rightarrow> json \<Rightarrow> py_exn + json" where
  "plus_one E (JInt n) = Inr (JInt (n + 1))"
| "plus_one E (JBool b) = Inr (JInt ((if b then 1 else 0) + 1))"
| "plus_one E (JFloat x) = Inr (JFloat (float_add_one E x))"
| "plus_one E (JStr s) =
     Inl (Exn TypeError
       (''can only concatenate str (not '' @ [CHR 0x22] @ ''int'' @ [CHR 0x22] @ '') to str''))"
| "plus_one E (JArr xs) =
     Inl (Exn TypeError
       (''can only concatenate list (not '' @ [CHR 0x22] @ ''int'' @ [CHR 0x22] @ '') to list''))"
| "plus_one E v =
     Inl (Exn TypeError
       (''unsupported operand type(s) for +: '' @ [CHR 0x27] @ type_name v @ [CHR 0x27] @
        '' and '' @ [CHR 0x27] @ ''int'' @ [CHR 0x27]))"

text \<open>
  \<^verbatim>\<open>save_stats\<close>, lines 67 to 73. The right-hand side of line 69 reads the clock, then
  \<^verbatim>\<open>self.stats['start_time']\<close>, then parses it (\<open>fromisoformat\<close> stands for the parse
  and the subtraction, which fail on a value that is no naive ISO timestamp); only then is
  \<^verbatim>\<open>uptime\<close> stored and the whole dict dumped to the stats file. Any exception leaves
  a warning and nothing else.
\<close>

definition save_stats :: "'w env \<Rightarrow> ('w, unit) prog" where
  "save_stats E =
     try_except
       (bnd (now E) (\<lambda>t.
        bnd (\<lambda>s. subscript (stats s) ''start_time'' s) (\<lambda>v.
        bnd (\<lambda>s. Some (fromisoformat E v, s)) (\<lambda>t0.
        seq (effect (\<lambda>s. s\<lparr>stats := dict_set (stats s) ''uptime'' (total_seconds E t t0)\<rparr>))
            (\<lambda>s. write_file STATS_FILE (json_dumps E (JObj (stats s))) s)))))
       (\<lambda>_. True)
       (\<lambda>e. effect (logger WARNING (''Could not save stats: '' @ exn_str e)))"

text \<open>\<^verbatim>\<open>increment\<close>, lines 75 to 78; the addition is outside any \<^verbatim>\<open>try\<close>.\<close>

definition increment :: "'w env \<Rightarrow> string \<Rightarrow> ('w, unit) prog" where
  "increment E key =
     bnd (\<lambda>s. Some (plus_one E (dict_get (stats s) key (JInt 0)), s)) (\<lambda>v.
     seq (effect (\<lambda>s. s\<lparr>stats := dict_set (stats s) key v\<rparr>))
    (bnd (now E) (\<lambda>t.
     seq (effect (\<lambda>s. s\<lparr>stats := dict_set (stats s) ''last_activity'' (JStr (isoformat E t))\<rparr>))
         (save_stats E))))"

text \<open>
  \<^verbatim>\<open>dict.update\<close> with what \<^verbatim>\<open>json.load\<close> returned. An object updates key by key.
  A number, a bool or \<^verbatim>\<open>None\<close> is not iterable (\<^verbatim>\<open>TypeError\<close>); an empty string or
  list updates nothing; a string of characters fails at its first element
  (\<^verbatim>\<open>ValueError\<close>). A list with elements is a sequence of key and value pairs as far as
  its elements allow: that case is left to the parameter \<open>upd\<close>, which returns the
  dict as far as it got and the exception, if any.
\<close>

fun update_from ::
  "(dict \<Rightarrow> json list \<Rightarrow> dict \<times> py_exn option) \<Rightarrow> dict \<Rightarrow> json \<Rightarrow> dict \<times> py_exn option" where
  "update_from upd d (JObj kvs) = (dict_update d kvs, None)"
| "update_from upd d (JStr []) = (d, None)"
| "update_from upd d (JStr (c # cs)) =
     (d, Some (Exn ValueError ''dictionary update sequence element #0 has length 1; 2 is required''))"
| "update_from upd d (JArr []) = (d, None)"
| "update_from upd d (JArr (x # xs)) = upd d (x # xs)"
| "update_from upd d v =
     (d, Some (Exn TypeError ([CHR 0x27] @ type_name v @ [CHR 0x27] @ '' object is not iterable'')))"

definition load_stats ::
  "'w env \<Rightarrow> (dict \<Rightarrow> json list \<Rightarrow> dict \<times> py_exn option) \<Rightarrow> ('w, unit) prog" where
  "load_stats E upd =
     try_except
       (\<lambda>s. if path_exists STATS_FILE s
            then bnd (read_file STATS_FILE) (\<lambda>txt.
                 bnd (\<lambda>s. Some (json_loads E txt, s)) (\<lambda>doc s.
                   case update_from upd (stats s) doc of
                     (d', None) \<Rightarrow> ret () (s\<lparr>stats := d'\<rparr>)
                   | (d', Some e) \<Rightarrow> raise e (s\<lparr>stats := d'\<rparr>))) s
            else ret () s)
       (\<lambda>_. True)
       (\<lambda>e. effect (logger WARNING (''Could not load stats: '' @ exn_str e)))"

definition BotStats_init ::
  "'w env \<Rightarrow> (dict \<Rightarrow> json list \<Rightarrow> dict \<times> py_exn option) \<Rightarrow> ('w, unit) prog" where
  "BotStats_init E upd =
     bnd (now E) (\<lambda>t.
     seq (effect (\<lambda>s. s\<lparr>stats :=
            [(''start_time'', JStr (isoformat E t)),
             (''messages_processed'', JInt 0),
             (''responses_sent'', JInt 0),
             (''errors'', JInt 0),
             (''last_activity'', JNull),
             (''uptime'', JInt 0)]\<rparr>))
         (load_stats E upd))"

section \<open>ProcessManager\<close>

definition signum_str :: "signum \<Rightarrow> string" where
  "signum_str sg = (case sg of SIGINT \<Rightarrow> ''2'' | SIGTERM \<Rightarrow> ''15'')"

text \<open>The handler of lines 112 to 114: it writes \<^verbatim>\<open>ProcessManager.running\<close>.\<close>

definition signal_handler :: "signum \<Rightarrow> 'w state \<Rightarrow> 'w state" where
  "signal_handler sg s =
     (logger INFO (''Received signal '' @ signum_str sg @ '', shutting down...'') s)
       \<lparr>pm_running := False\<rparr>"

definition setup_signal_handlers :: "'w state \<Rightarrow> 'w state" where
  "setup_signal_handlers s = s\<lparr>handlers := [SIGINT, SIGTERM]\<rparr>"

definition write_pid :: "'w env \<Rightarrow> ('w, unit) prog" where
  "write_pid E =
     try_except
       (\<lambda>s. write_file PID_FILE (str_of_int E (os_getpid E (world s))) s)
       (\<lambda>_. True)
       (\<lambda>e. effect (logger WARNING (''Could not write PID file: '' @ exn_str e)))"

definition cleanup_pid :: "('w, unit) prog" where
  "cleanup_pid =
     try_except
       (\<lambda>s. if path_exists PID_FILE s then remove_file PID_FILE s else ret () s)
       (\<lambda>_. True)
       (\<lambda>e. effect (logger WARNING (''Could not remove PID file: '' @ exn_str e)))"

definition ProcessManager_init :: "'w env \<Rightarrow> ('w, unit) prog" where
  "ProcessManager_init E =
     seq (effect (\<lambda>s. s\<lparr>pm_running := True\<rparr>))
    (seq (effect setup_signal_handlers)
         (write_pid E))"

text \<open>\<^verbatim>\<open>sep.join(xs)\<close> and \<^verbatim>\<open>sub in text\<close> on strings.\<close>

fun join :: "string \<Rightarrow> string list \<Rightarrow> string" where
  "join sep [] = []"
| "join sep [x] = x"
| "join sep (x # y # ys) = x @ sep @ join sep (y # ys)"

fun contains :: "string \<Rightarrow> string \<Rightarrow> bool" where
  "contains [] sub = (sub = [])"
| "contains (c # cs) sub = (take (length sub) (c # cs) = sub \<or> contains cs sub)"

definition bot_marker :: string where "bot_marker = ''teams_chatgpt_bot''"

text \<open>
  \<^verbatim>\<open>is_already_running\<close>, lines 134 to 149. The value of the \<^verbatim>\<open>try\<close> body is
  \<open>True\<close> where line 143 returns and \<open>False\<close> where control falls through to line 149.
\<close>

definition is_already_running :: "'w env \<Rightarrow> ('w, bool) prog" where
  "is_already_running E =
     try_except
       (\<lambda>s. if path_exists PID_FILE s
            then bnd (read_file PID_FILE) (\<lambda>txt.
                 bnd (\<lambda>s. Some (int_of_stripped E txt, s)) (\<lambda>pid.
                   try_except
                     (bnd (lift (ask (psutil_Process E pid))) (\<lambda>process.
                      bnd (lift (ask (process_cmdline E process))) (\<lambda>args.
                        ret (contains (join '' '' args) bot_marker))))
                     is_NoSuchProcess
                     (\<lambda>_. ret False))) s
            else ret False s)
       (\<lambda>_. True)
       (\<lambda>e. seq (effect (logger WARNING (''Could not check if already running: '' @ exn_str e)))
                (ret False))"

section \<open>TeamsBot: browser sessions and the two logins\<close>

text \<open>
  \<^verbatim>\<open>setup_driver\<close>, lines 261 to 276: the options depend on the truth value of
  \<^verbatim>\<open>config.get('headless', False)\<close>; the constructor and the two timeout calls are not
  inside any \<^verbatim>\<open>try\<close> of this method.
\<close>

definition chrome_options_of :: "dict \<Rightarrow> chrome_options" where
  "chrome_options_of config =
     \<lparr>arguments =
        (if truthy (dict_get config ''headless'' (JBool False))
         then [''--headless'', ''--no-sandbox'', ''--disable-dev-shm-usage'', ''--disable-gpu'']
         else []) @ [''--disable-blink-features=AutomationControlled''],
      experimental_options =
        [(''excludeSwitches'', JArr [JStr ''enable-automation'']),
         (''useAutomationExtension'', JBool False)]\<rparr>"

definition setup_driver :: "'w env \<Rightarrow> dict \<Rightarrow> ('w, drv) prog" where
  "setup_driver E config =
     bnd (lift (invoke (NewChrome (chrome_options_of config))
                  (webdriver_Chrome E (chrome_options_of config)))) (\<lambda>driver.
     seq (lift (invoke (SetPageLoadTimeout driver 30) (set_page_load_timeout E driver 30)))
    (seq (lift (invoke (ImplicitlyWait driver 10) (implicitly_wait E driver 10)))
         (ret driver)))"

text \<open>
  The loop of lines 182 and 183 (and 225 and 226): it polls \<^verbatim>\<open>detect_captcha\<close> and
  sleeps five seconds while the answer is true, with no bound on the number of rounds.
  \<open>None\<close> is the loop that never ends.
\<close>

partial_function (option) captcha_wait ::
  "'w env \<Rightarrow> drv \<Rightarrow> 'w state \<Rightarrow> ((py_exn + unit) \<times> 'w state) option" where
  "captcha_wait E d s =
     (case detect_captcha E d s of
        None \<Rightarrow> None
      | Some (r, s') \<Rightarrow>
          (case r of
             Inl e \<Rightarrow> Some (Inl e, s')
           | Inr found \<Rightarrow>
               if found then captcha_wait E d (call_time_sleep E 5 s')
               else Some (Inr (), s')))"

declare captcha_wait.simps [code]

text \<open>Lines 181 to 183: the loop is entered only after a first positive detection.\<close>

definition captcha_gate :: "'w env \<Rightarrow> drv \<Rightarrow> ('w, unit) prog" where
  "captcha_gate E d =
     bnd (detect_captcha E d) (\<lambda>found. if found then captcha_wait E d else ret ())"

definition fill :: "'w env \<Rightarrow> elem \<Rightarrow> dict \<Rightarrow> string \<Rightarrow> ('w, unit) prog" where
  "fill E x config k =
     seq (call_clear E x)
         (bnd (subscript config k) (\<lambda>v. call_send_keys E x v))"

definition press :: "'w env \<Rightarrow> drv \<Rightarrow> locator \<Rightarrow> ('w, unit) prog" where
  "press E d b = bnd (call_find_element E d b) (\<lambda>x. call_click E x)"

definition teams_marker :: locator where "teams_marker = ByCss ''[data-tid='app-bar-chat']''"

definition chatgpt_marker :: locator where
  "chatgpt_marker = ByCss ''textarea[placeholder*='Message']''"

text \<open>
  The \<^verbatim>\<open>try\<close> body of \<^verbatim>\<open>login_to_teams\<close>, lines 177 to 212, in two parts:
  \<open>teams_login_steps\<close> is lines 179 to 212, what follows the assignment of the new driver
  to \<^verbatim>\<open>self.teams_driver\<close> at line 178. \<open>fill\<close> is the pair
  \<^verbatim>\<open>clear\<close>, \<^verbatim>\<open>send_keys(self.config[k])\<close>; \<open>press\<close> is
  \<^verbatim>\<open>find_element(...).click()\<close>. The inner \<^verbatim>\<open>try\<close> of lines 200 to 206 passes over
  a \<^verbatim>\<open>TimeoutException\<close> only.
\<close>

definition teams_login_steps :: "'w env \<Rightarrow> dict \<Rightarrow> drv \<Rightarrow> ('w, bool) prog" where
  "teams_login_steps E config d =
     seq (call_get E d ''https://teams.microsoft.com'')
    (seq (captcha_gate E d)
    (bnd (call_wait_until E d 15 (presence_of_element_located (ById ''i0116''))) (\<lambda>email_input.
     seq (fill E email_input config ''teams_email'')
    (seq (press E d (ById ''idSIButton9''))
    (bnd (call_wait_until E d 15 (presence_of_element_located (ById ''i0118''))) (\<lambda>password_input.
     seq (fill E password_input config ''teams_password'')
    (seq (press E d (ById ''idSIButton9''))
    (seq (try_except
            (bnd (call_wait_until E d 5 (element_to_be_clickable (ById ''idSIButton9'')))
               (\<lambda>stay_signed_in. call_click E stay_signed_in))
            is_TimeoutException
            (\<lambda>_. ret ()))
    (seq (call_wait_until E d 30 (presence_of_element_located teams_marker))
    (seq (effect (logger INFO ''Successfully logged into Teams''))
         (ret True)))))))))))"

definition login_to_teams_body :: "'w env \<Rightarrow> dict \<Rightarrow> ('w, bool) prog" where
  "login_to_teams_body E config =
     seq (effect (logger INFO ''Starte Teams-Login...''))
    (bnd (setup_driver E config) (\<lambda>d.
     seq (effect (\<lambda>s. s\<lparr>teams_driver := Some d\<rparr>))
         (teams_login_steps E config d)))"

definition login_to_teams :: "'w env \<Rightarrow> dict \<Rightarrow> ('w, bool) prog" where
  "login_to_teams E config =
     try_except (login_to_teams_body E config)
       (\<lambda>_. True)
       (\<lambda>e. seq (effect (logger ERROR (''Teams login error: '' @ exn_str e))) (ret False))"

text \<open>
  The \<^verbatim>\<open>try\<close> body of \<^verbatim>\<open>login_to_chatgpt\<close>, lines 220 to 255, split in the same
  way after line 221.
\<close>

definition submit_button :: locator where "submit_button = ByXpath ''//button[@type='submit']''"

definition chatgpt_login_steps :: "'w env \<Rightarrow> dict \<Rightarrow> drv \<Rightarrow> ('w, bool) prog" where
  "chatgpt_login_steps E config d =
     seq (call_get E d ''https://chat.openai.com'')
    (seq (captcha_gate E d)
    (bnd (call_wait_until E d 10
            (element_to_be_clickable (ByXpath ''//button[contains(text(), 'Log in')]'')))
       (\<lambda>login_button.
     seq (call_click E login_button)
    (bnd (call_wait_until E d 15 (presence_of_element_located (ById ''username''))) (\<lambda>email_input.
     seq (fill E email_input config ''chatgpt_email'')
    (seq (press E d submit_button)
    (bnd (call_wait_until E d 15 (presence_of_element_located (ById ''password''))) (\<lambda>password_input.
     seq (fill E password_input config ''chatgpt_password'')
    (seq (press E d submit_button)
    (seq (call_wait_until E d 30 (presence_of_element_located chatgpt_marker))
    (seq (effect (logger INFO ''Successfully logged into ChatGPT''))
         (ret True))))))))))))"

definition login_to_chatgpt_body :: "'w env \<Rightarrow> dict \<Rightarrow> ('w, bool) prog" where
  "login_to_chatgpt_body E config =
     seq (effect (logger INFO ''Starte ChatGPT-Login...''))
    (bnd (setup_driver E config) (\<lambda>d.
     seq (effect (\<lambda>s. s\<lparr>chatgpt_driver := Some d\<rparr>))
         (chatgpt_login_steps E config d)))"

definition login_to_chatgpt :: "'w env \<Rightarrow> dict \<Rightarrow> ('w, bool) prog" where
  "login_to_chatgpt E config =
     try_except (login_to_chatgpt_body E config)
       (\<lambda>_. True)
       (\<lambda>e. seq (effect (logger ERROR (''ChatGPT login error: '' @ exn_str e))) (ret False))"

section \<open>TeamsBot: start, the idle loop and stop\<close>

text \<open>
  Signals that arrive while the coroutine sleeps run the registered handler, one after
  the other; \<^verbatim>\<open>start\<close> runs on a constructed \<^verbatim>\<open>TeamsBot\<close>, whose
  \<^verbatim>\<open>ProcessManager\<close> has registered it for both signals.
\<close>

definition deliver :: "signum list \<Rightarrow> 'w state \<Rightarrow> 'w state" where
  "deliver sigs s = foldl (\<lambda>s sg. signal_handler sg s) s sigs"

text \<open>
  Lines 292 and 293: \<^verbatim>\<open>while self.is_running: await asyncio.sleep(...)\<close>. The
  condition reads the attribute \<^verbatim>\<open>is_running\<close> of the \<^verbatim>\<open>TeamsBot\<close>.
\<close>

partial_function (option) idle_loop ::
  "'w env \<Rightarrow> dict \<Rightarrow> 'w state \<Rightarrow> ((py_exn + unit) \<times> 'w state) option" where
  "idle_loop E config s =
     (if is_running s
      then (case invoke (AsyncioSleep (dict_get config ''check_interval'' (JInt 10)))
                   (asyncio_sleep E (dict_get config ''check_interval'' (JInt 10))) s of
              (r, s') \<Rightarrow>
                (case r of
                   Inl e \<Rightarrow> Some (Inl e, s')
                 | Inr sigs \<Rightarrow> idle_loop E config (deliver sigs s')))
      else Some (Inr (), s))"

declare idle_loop.simps [code]

definition start :: "'w env \<Rightarrow> dict \<Rightarrow> ('w, unit) prog" where
  "start E config =
     seq (effect (logger INFO ''Starting Teams-ChatGPT Bot...''))
    (bnd (login_to_teams E config) (\<lambda>teams_login.
       if \<not> teams_login
       then seq (effect (logger ERROR ''Failed to login to Teams'')) (ret ())
       else bnd (login_to_chatgpt E config) (\<lambda>chatgpt_login.
         if \<not> chatgpt_login
         then seq (effect (logger ERROR ''Failed to login to ChatGPT'')) (ret ())
         else seq (effect (logger INFO ''Bot successfully started and ready!''))
             (seq (effect (\<lambda>s. s\<lparr>is_running := True\<rparr>))
                  (idle_loop E config)))))"

text \<open>\<^verbatim>\<open>stop\<close>, lines 295 to 302: two \<^verbatim>\<open>quit\<close> calls in sequence, no \<^verbatim>\<open>try\<close>.\<close>

definition stop :: "'w env \<Rightarrow> ('w, unit) prog" where
  "stop E =
     seq (effect (logger INFO ''Stopping bot...''))
    (seq (effect (\<lambda>s. s\<lparr>is_running := False\<rparr>))
    (seq (\<lambda>s. case teams_driver s of Some d \<Rightarrow> call_quit E d s | None \<Rightarrow> ret () s)
    (seq (\<lambda>s. case chatgpt_driver s of Some d \<Rightarrow> call_quit E d s | None \<Rightarrow> ret () s)
         (effect (logger INFO ''Bot stopped'')))))"

section \<open>Configuration and main\<close>

definition default_config :: dict where
  "default_config =
     [(''teams_email'', JStr ''''),
      (''teams_password'', JStr ''''),
      (''chatgpt_email'', JStr ''''),
      (''chatgpt_password'', JStr ''''),
      (''bot_trigger'', JStr ''@bot''),
      (''check_interval'', JInt 10),
      (''headless'', JBool False),
      (''max_retries'', JInt 3),
      (''retry_delay'', JInt 30)]"

text \<open>The letter u with diaeresis of the two German messages, in UTF-8.\<close>

definition ausfuellen :: string where
  "ausfuellen = ''ausf'' @ [CHR 0xC3, CHR 0xBC] @ ''llen''"

definition created_message :: string where
  "created_message =
     ''Konfigurationsdatei ''  @ [CHR 0x27] @ CONFIG_FILE @ [CHR 0x27] @
     '' erstellt. Bitte '' @ ausfuellen @ ''!''"

text \<open>\<^verbatim>\<open>load_config\<close>, lines 305 to 324; neither branch has a \<^verbatim>\<open>try\<close>.\<close>

definition load_config :: "'w env \<Rightarrow> ('w, json) prog" where
  "load_config E s =
     (if path_exists CONFIG_FILE s
      then bnd (read_file CONFIG_FILE) (\<lambda>txt s. Some (json_loads E txt, s)) s
      else seq (write_file CONFIG_FILE (json_dumps E (JObj default_config)))
          (seq (effect (print created_message))
               (ret (JObj default_config))) s)"

text \<open>
  \<^verbatim>\<open>TeamsBot.__init__\<close>, lines 153 to 164. The attributes no method reads
  (\<^verbatim>\<open>processed_messages\<close>, \<^verbatim>\<open>last_health_check\<close>, \<^verbatim>\<open>health_check_interval\<close>,
  \<^verbatim>\<open>max_retries\<close>, \<^verbatim>\<open>retry_delay\<close>) have no field; the clock is still read.
\<close>

definition TeamsBot_init ::
  "'w env \<Rightarrow> (dict \<Rightarrow> json list \<Rightarrow> dict \<times> py_exn option) \<Rightarrow> dict \<Rightarrow> ('w, unit) prog" where
  "TeamsBot_init E upd config =
     seq (effect (\<lambda>s. s\<lparr>teams_driver := None, chatgpt_driver := None, is_running := False\<rparr>))
    (seq (BotStats_init E upd)
    (seq (ProcessManager_init E)
    (seq (now E) (ret ()))))"

definition credential_fields :: "string list" where
  "credential_fields = [''teams_email'', ''teams_password'', ''chatgpt_email'', ''chatgpt_password'']"

text \<open>Line 329: \<^verbatim>\<open>not config.get(f)\<close>, where a missing key gives \<^verbatim>\<open>None\<close>.\<close>

definition missing_fields :: "dict \<Rightarrow> string list" where
  "missing_fields config = filter (\<lambda>f. \<not> truthy (dict_get config f JNull)) credential_fields"

definition missing_message :: "string list \<Rightarrow> string" where
  "missing_message missing =
     ''Bitte folgende Felder in '' @ CONFIG_FILE @ '' '' @ ausfuellen @ '': '' @
     join '', '' missing"

text \<open>
  Lines 334 to 342, the part of \<^verbatim>\<open>main\<close> that runs a constructed bot. Once the
  constructor has registered the module's handler for \<^verbatim>\<open>SIGINT\<close>, no
  \<^verbatim>\<open>KeyboardInterrupt\<close> is raised, so of the two handlers the second decides.
\<close>

definition run_bot :: "'w env \<Rightarrow> dict \<Rightarrow> ('w, unit) prog" where
  "run_bot E config =
     try_finally
       (try_except (start E config)
          (\<lambda>_. True)
          (\<lambda>e. effect (logger ERROR (''Bot crashed: '' @ exn_str e))))
       (stop E)"

text \<open>
  \<^verbatim>\<open>main\<close>, lines 327 to 342. \<^verbatim>\<open>config.get\<close> exists on a dict only: any other JSON
  document in the configuration file raises \<^verbatim>\<open>AttributeError\<close> at line 329.
\<close>

definition no_attribute_get :: "json \<Rightarrow> string" where
  "no_attribute_get v =
     [CHR 0x27] @ type_name v @ [CHR 0x27] @ '' object has no attribute '' @
     [CHR 0x27] @ ''get'' @ [CHR 0x27]"

definition main ::
  "'w env \<Rightarrow> (dict \<Rightarrow> json list \<Rightarrow> dict \<times> py_exn option) \<Rightarrow> ('w, unit) prog" where
  "main E upd =
     bnd (load_config E) (\<lambda>doc.
       case doc of
         JObj config \<Rightarrow>
           if missing_fields config \<noteq> []
           then seq (effect (print (missing_message (missing_fields config)))) (ret ())
           else seq (TeamsBot_init E upd config) (run_bot E config)
       | _ \<Rightarrow> raise (Exn AttributeError (no_attribute_get doc)))"

section \<open>Notions used in the proofs\<close>



definition keeps_drivers :: "('w, 'a) prog \<Rightarrow> bool" where
  "keeps_drivers m =
     (\<forall>s r s'. m s = Some (r, s') \<longrightarrow>
        teams_driver s' = teams_driver s \<and> chatgpt_driver s' = chatgpt_driver s)"

section \<open>A concrete world for running the model\<close>

text \<open>
  The theorems below hold for every world. To run the model on concrete inputs, \<open>sim\<close>
  is a small world whose state is a counter: every driver it constructs gets the next
  number, no page holds a CAPTCHA marker, every element is found, the clock shows the
  counter, a timestamp \<open>t\<close> is written as the letter T followed by \<open>t\<close> plus signs, the
  process has PID 4242, and every asyncio sleep is interrupted by one \<^verbatim>\<open>SIGTERM\<close>.
  Variants change single operations.
\<close>

definition sim :: "nat env" where
  "sim =
     \<lparr>webdriver_Chrome = (\<lambda>opts w. (Inr (Suc w), Suc w)),
      set_page_load_timeout = (\<lambda>d n w. (Inr (), w)),
      implicitly_wait = (\<lambda>d n w. (Inr (), w)),
      driver_get = (\<lambda>d url w. (Inr (), w)),
      find_elements = (\<lambda>d b w. (Inr [], w)),
      find_element = (\<lambda>d b w. (Inr 7, w)),
      wait_until = (\<lambda>d t c w. (Inr 7, w)),
      elem_clear = (\<lambda>x w. (Inr (), w)),
      send_keys = (\<lambda>x v w. (Inr (), w)),
      click = (\<lambda>x w. (Inr (), w)),
      quit = (\<lambda>d w. (Inr (), w)),
      time_sleep = (\<lambda>n w. w + n),
      asyncio_sleep = (\<lambda>v w. (Inr [SIGTERM], Suc w)),
      datetime_now = (\<lambda>w. (int w, Suc w)),
      os_getpid = (\<lambda>w. 4242),
      psutil_Process =
        (\<lambda>pid w. if pid = 4242 then (Inr pid, w)
                  else (Inl (Exn NoSuchProcess ''process no longer exists''), w)),
      process_cmdline = (\<lambda>p w. (Inr [''python3'', ''teams_chatgpt_bot_captcha.py''], w)),
      json_loads =
        (\<lambda>txt. if txt = ''partial''
               then Inr (JObj [(''teams_email'', JStr ''a@b.c''), (''teams_password'', JStr ''''),
                               (''chatgpt_email'', JStr ''d@e.f'')])
               else Inl (Exn JSONDecodeError ''Expecting value'')),
      json_dumps = (\<lambda>v. case v of JObj kvs \<Rightarrow> concat (map fst kvs) | _ \<Rightarrow> ''scalar''),
      isoformat = (\<lambda>t. CHR ''T'' # replicate (nat t) (CHR ''+'')),
      fromisoformat =
        (\<lambda>v. case v of
               JStr str \<Rightarrow>
                 (if str \<noteq> [] \<and> hd str = CHR ''T'' \<and> set (tl str) \<subseteq> {CHR ''+''}
                  then Inr (int (length (tl str)))
                  else Inl (Exn ValueError
                         (''Invalid isoformat string: '' @ [CHR 0x27] @ str @ [CHR 0x27])))
             | _ \<Rightarrow> Inl (Exn TypeError ''fromisoformat: argument must be str'')),
      total_seconds = (\<lambda>t t0. JFloat (of_int (t - t0))),
      int_of_stripped =
        (\<lambda>txt. if txt = ''4242'' then Inr 4242
               else if txt = ''17'' then Inr 17
               else Inl (Exn ValueError ''invalid literal for int() with base 10'')),
      str_of_int = (\<lambda>n. if n = 4242 then ''4242'' else ''17''),
      float_add_one = (\<lambda>x. if 9007199254740992 \<le> \<bar>x\<bar> then x else x + 1)\<rparr>"

definition no_update :: "dict \<Rightarrow> json list \<Rightarrow> dict \<times> py_exn option" where
  "no_update d xs = (d, Some (Exn TypeError ''cannot convert dictionary update sequence''))"

definition fresh :: "nat state" where
  "fresh =
     \<lparr>world = 0, calls = [], files = Map.empty, denied = {}, stdout = [], logs = [],
      stats = [], pm_running = False, handlers = [], teams_driver = None,
      chatgpt_driver = None, is_running = False\<rparr>"

definition full_config :: dict where
  "full_config =
     [(''teams_email'', JStr ''a@b.c''), (''teams_password'', JStr ''pw1''),
      (''chatgpt_email'', JStr ''d@e.f''), (''chatgpt_password'', JStr ''pw2'')]"

text \<open>A page that shows an hCaptcha frame, whatever else is asked of it.\<close>

definition sim_hcaptcha :: "nat env" where
  "sim_hcaptcha =
     sim\<lparr>find_elements := (\<lambda>d b w. (Inr (if b = hcaptcha_frame then [3] else []), w))\<rparr>"


text \<open>A machine without a usable Chrome.\<close>

definition sim_no_chrome :: "nat env" where
  "sim_no_chrome =
     sim\<lparr>webdriver_Chrome := (\<lambda>opts w.
            (Inl (Exn WebDriverException ''Message: unknown error: cannot find Chrome binary''), w))\<rparr>"

text \<open>A world in which the first driver cannot be shut down.\<close>

definition sim_quit_fails :: "nat env" where
  "sim_quit_fails =
     sim\<lparr>quit := (\<lambda>d w. if d = 1 then (Inl (Exn WebDriverException ''Message: disconnected''), w)
                         else (Inr (), w))\<rparr>"

text \<open>A world in which the Teams page never loads.\<close>

definition sim_no_page :: "nat env" where
  "sim_no_page =
     sim\<lparr>driver_get := (\<lambda>d url w. (Inl (Exn TimeoutException ''Message: timeout''), w))\<rparr>"

text \<open>
  A world in which the ChatGPT page never loads and the first driver cannot be shut down.
\<close>

definition sim_chatgpt_down :: "nat env" where
  "sim_chatgpt_down =
     sim\<lparr>driver_get := (\<lambda>d url w.
            if url = ''https://chat.openai.com''
            then (Inl (Exn TimeoutException ''Message: timeout''), w)
            else (Inr (), w)),
         quit := (\<lambda>d w. if d = 1 then (Inl (Exn WebDriverException ''Message: disconnected''), w)
                         else (Inr (), w))\<rparr>"




section \<open>Properties\<close>

lemmas prog_defs =
  bnd_def seq_def ret_def raise_def lift_def effect_def try_except_def try_finally_def
  invoke_def ask_def

subsection \<open>CAPTCHA detection\<close>

text \<open>
  What \<^verbatim>\<open>detect_captcha\<close> returns and leaves behind, by the answer that decides:
  a failure, a marker, or three empty lists.
\<close>

lemma detect_captcha_cases:
  assumes q1: "find_elements E d recaptcha_frame (world s) = (r1, w1)"
      and q2: "find_elements E d hcaptcha_frame w1 = (r2, w2)"
      and q3: "find_elements E d recaptcha_div w2 = (r3, w3)"
  shows "r1 = Inl e \<Longrightarrow>
           detect_captcha E d s =
             Some (Inr False, s\<lparr>world := w1, calls := calls s @ [FindElements d recaptcha_frame]\<rparr>)"
    and "r1 = Inr x \<Longrightarrow> x \<noteq> [] \<Longrightarrow>
           detect_captcha E d s =
             Some (Inr True, s\<lparr>world := w1, calls := calls s @ [FindElements d recaptcha_frame],
                               logs := logs s @ [(WARNING, captcha_warning)]\<rparr>)"
    and "r1 = Inr [] \<Longrightarrow> r2 = Inl e \<Longrightarrow>
           detect_captcha E d s =
             Some (Inr False, s\<lparr>world := w2,
                     calls := calls s @ [FindElements d recaptcha_frame,
                                         FindElements d hcaptcha_frame]\<rparr>)"
    and "r1 = Inr [] \<Longrightarrow> r2 = Inr x \<Longrightarrow> x \<noteq> [] \<Longrightarrow>
           detect_captcha E d s =
             Some (Inr True, s\<lparr>world := w2,
                     calls := calls s @ [FindElements d recaptcha_frame,
                                         FindElements d hcaptcha_frame],
                     logs := logs s @ [(WARNING, captcha_warning)]\<rparr>)"
    and "r1 = Inr [] \<Longrightarrow> r2 = Inr [] \<Longrightarrow> r3 = Inl e \<Longrightarrow>
           detect_captcha E d s =
             Some (Inr False, s\<lparr>world := w3,
                     calls := calls s @ [FindElements d recaptcha_frame,
                                         FindElements d hcaptcha_frame,
                                         FindElements d recaptcha_div]\<rparr>)"
    and "r1 = Inr [] \<Longrightarrow> r2 = Inr [] \<Longrightarrow> r3 = Inr x \<Longrightarrow> x \<noteq> [] \<Longrightarrow>
           detect_captcha E d s =
             Some (Inr True, s\<lparr>world := w3,
                     calls := calls s @ [FindElements d recaptcha_frame,
                                         FindElements d hcaptcha_frame,
                                         FindElements d recaptcha_div],
                     logs := logs s @ [(WARNING, captcha_warning)]\<rparr>)"
    and "r1 = Inr [] \<Longrightarrow> r2 = Inr [] \<Longrightarrow> r3 = Inr [] \<Longrightarrow>
           detect_captcha E d s =
             Some (Inr False, s\<lparr>world := w3,
                     calls := calls s @ [FindElements d recaptcha_frame,
                                         FindElements d hcaptcha_frame,
                                         FindElements d recaptcha_div]\<rparr>)"
  using q1 q2 q3
  by (simp_all add: detect_captcha_def captcha_probe_def call_find_elements_def prog_defs
        logger_def)

text \<open>
  Claim C2. Let \<open>r1\<close>, \<open>r2\<close>, \<open>r3\<close> be what the page answers to the three marker
  queries (reCAPTCHA frame, hCaptcha frame, reCAPTCHA div), each asked in the world the
  one before it left. \<^verbatim>\<open>detect_captcha\<close> always returns a boolean and never raises.
  The boolean is true exactly when a query answers with a non-empty list and every query
  before it answered with the empty list; so when all three queries answer, it is true
  exactly when one of the answers is non-empty, and a query that fails before any marker
  was found gives false. The state it leaves is the initial one except for three things:
  the queries it asked, in order and stopping at the first marker or failure, are added
  to the history of browser calls and nothing else is; the world is the one the last
  query left; and the warning line is added to the log exactly when the result is true.
\<close>

theorem detect_captcha_spec:
  assumes q1: "find_elements E d recaptcha_frame (world s) = (r1, w1)"
      and q2: "find_elements E d hcaptcha_frame w1 = (r2, w2)"
      and q3: "find_elements E d recaptcha_div w2 = (r3, w3)"
  shows "\<exists>b s'. detect_captcha E d s = Some (Inr b, s') \<and>
           (b \<longleftrightarrow> (\<exists>x. x \<noteq> [] \<and>
                   (r1 = Inr x \<or> (r1 = Inr [] \<and> (r2 = Inr x \<or> (r2 = Inr [] \<and> r3 = Inr x)))))) \<and>
           (\<forall>x y z. r1 = Inr x \<and> r2 = Inr y \<and> r3 = Inr z \<longrightarrow>
                    b = (x \<noteq> [] \<or> y \<noteq> [] \<or> z \<noteq> [])) \<and>
           ((\<exists>e. r1 = Inl e) \<or> (r1 = Inr [] \<and> (\<exists>e. r2 = Inl e)) \<or>
            (r1 = Inr [] \<and> r2 = Inr [] \<and> (\<exists>e. r3 = Inl e)) \<longrightarrow> \<not> b) \<and>
           s' = s\<lparr>world := (if r1 = Inr [] then (if r2 = Inr [] then w3 else w2) else w1),
                  calls := calls s @
                    FindElements d recaptcha_frame #
                    (if r1 = Inr []
                     then FindElements d hcaptcha_frame #
                          (if r2 = Inr [] then [FindElements d recaptcha_div] else [])
                     else []),
                  logs := logs s @ (if b then [(WARNING, captcha_warning)] else [])\<rparr>"
proof (cases r1)
  case (Inl e)
  from detect_captcha_cases(1) [OF q1 q2 q3 Inl] Inl show ?thesis by auto
next
  case a: (Inr x)
  show ?thesis
  proof (cases "x = []")
    case False
    from detect_captcha_cases(2) [OF q1 q2 q3 a False] a False show ?thesis by auto
  next
    case True
    with a have r1: "r1 = Inr []" by simp
    show ?thesis
    proof (cases r2)
      case (Inl e)
      from detect_captcha_cases(3) [OF q1 q2 q3 r1 Inl] r1 Inl show ?thesis by auto
    next
      case b: (Inr y)
      show ?thesis
      proof (cases "y = []")
        case False
        from detect_captcha_cases(4) [OF q1 q2 q3 r1 b False] r1 b False show ?thesis by auto
      next
        case True
        with b have r2: "r2 = Inr []" by simp
        show ?thesis
        proof (cases r3)
          case (Inl e)
          from detect_captcha_cases(5) [OF q1 q2 q3 r1 r2 Inl] r1 r2 Inl show ?thesis by auto
        next
          case c: (Inr z)
          show ?thesis
          proof (cases "z = []")
            case False
            from detect_captcha_cases(6) [OF q1 q2 q3 r1 r2 c False] r1 r2 c False
            show ?thesis by auto
          next
            case True
            with c have r3: "r3 = Inr []" by simp
            from detect_captcha_cases(7) [OF q1 q2 q3 r1 r2 r3] r1 r2 r3 show ?thesis by auto
          qed
        qed
      qed
    qed
  qed
qed

theorem detect_captcha_spec_witness:
  "detect_captcha sim_hcaptcha 1 fresh =
     Some (Inr True,
           fresh\<lparr>calls := [FindElements 1 recaptcha_frame, FindElements 1 hcaptcha_frame],
                 logs := [(WARNING, captcha_warning)]\<rparr>)"
proof -
  have q1: "find_elements sim_hcaptcha 1 recaptcha_frame (world fresh) = (Inr [], 0)"
    by (simp add: sim_hcaptcha_def sim_def fresh_def recaptcha_frame_def hcaptcha_frame_def)
  have q2: "find_elements sim_hcaptcha 1 hcaptcha_frame 0 = (Inr [3], 0)"
    by (simp add: sim_hcaptcha_def sim_def)
  have q3: "find_elements sim_hcaptcha 1 recaptcha_div 0 = (Inr [], 0)"
    by (simp add: sim_hcaptcha_def sim_def recaptcha_div_def hcaptcha_frame_def)
  from detect_captcha_spec [OF q1 q2 q3] show ?thesis
    by (simp add: fresh_def)
qed

subsection \<open>The PID file and the running instance\<close>

text \<open>\<open>contains\<close> decides whether its second argument occurs in the first.\<close>

lemma contains_iff: "contains t sub \<longleftrightarrow> (\<exists>pre post. t = pre @ sub @ post)"
proof (induction t)
  case Nil
  then show ?case by auto
next
  case (Cons c cs)
  show ?case
  proof
    assume "contains (c # cs) sub"
    then consider "take (length sub) (c # cs) = sub" | "contains cs sub" by auto
    then show "\<exists>pre post. c # cs = pre @ sub @ post"
    proof cases
      case 1
      then have "c # cs = [] @ sub @ drop (length sub) (c # cs)"
        by (metis append_Nil append_take_drop_id)
      then show ?thesis by blast
    next
      case 2
      then obtain pre post where "cs = pre @ sub @ post" using Cons.IH by blast
      then have "c # cs = (c # pre) @ sub @ post" by simp
      then show ?thesis by blast
    qed
  next
    assume "\<exists>pre post. c # cs = pre @ sub @ post"
    then obtain pre post where eq: "c # cs = pre @ sub @ post" by blast
    show "contains (c # cs) sub"
    proof (cases pre)
      case Nil
      then have "take (length sub) (c # cs) = sub" using eq by simp
      then show ?thesis by simp
    next
      case (Cons p ps)
      then have "cs = ps @ sub @ post" using eq by simp
      then have "contains cs sub" using Cons.IH by blast
      then show ?thesis by simp
    qed
  qed
qed

text \<open>
  Claim C9. \<^verbatim>\<open>is_already_running\<close> always returns a boolean and never raises. It
  returns true exactly when the PID file exists and can be read, its content parses as an
  integer, psutil finds a live process with that PID, the command line of that process can
  be read, and the command line, joined with blanks, contains \<^verbatim>\<open>teams_chatgpt_bot\<close>.
  So a PID file left behind by a crash, whose PID is dead or belongs to another program,
  gives false, and so does every failure to read or parse.
\<close>

theorem is_already_running_spec:
  "\<exists>b s'. is_already_running E s = Some (Inr b, s') \<and>
     (b \<longleftrightarrow>
        (\<exists>txt pid process w1 args w2 pre post.
           files s PID_FILE = Some txt \<and> PID_FILE \<notin> denied s \<and>
           int_of_stripped E txt = Inr pid \<and>
           psutil_Process E pid (world s) = (Inr process, w1) \<and>
           process_cmdline E process w1 = (Inr args, w2) \<and>
           join '' '' args = pre @ bot_marker @ post))"
proof (cases "files s PID_FILE")
  case None
  then show ?thesis
    by (auto simp add: is_already_running_def path_exists_def prog_defs)
next
  case (Some content)
  note f = this
  show ?thesis
  proof (cases "PID_FILE \<in> denied s")
    case True
    then show ?thesis using f
      by (auto simp add: is_already_running_def path_exists_def read_file_def prog_defs)
  next
    case False
    note d = this
    show ?thesis
    proof (cases "int_of_stripped E content")
      case (Inl e)
      then show ?thesis using f d
        by (auto simp add: is_already_running_def path_exists_def read_file_def prog_defs)
    next
      case (Inr pid)
      note p = this
      obtain r1 w1 where q1: "psutil_Process E pid (world s) = (r1, w1)" by (cases "psutil_Process E pid (world s)")
      show ?thesis
      proof (cases r1)
        case (Inl e)
        then show ?thesis using f d p q1
          by (auto simp add: is_already_running_def path_exists_def read_file_def prog_defs)
      next
        case (Inr process)
        note pr = this
        obtain r2 w2 where q2: "process_cmdline E process w1 = (r2, w2)" by (cases "process_cmdline E process w1")
        show ?thesis
        proof (cases r2)
          case (Inl e)
          then show ?thesis using f d p q1 pr q2
            by (auto simp add: is_already_running_def path_exists_def read_file_def prog_defs)
        next
          case (Inr args)
          then show ?thesis using f d p q1 pr q2
            by (auto simp add: is_already_running_def path_exists_def read_file_def prog_defs contains_iff)
        qed
      qed
    qed
  qed
qed

theorem is_already_running_spec_witness:
  "(\<exists>s'. is_already_running sim (fresh\<lparr>files := [PID_FILE \<mapsto> ''4242'']\<rparr>) = Some (Inr True, s')) \<and>
   (\<exists>s'. is_already_running sim (fresh\<lparr>files := [PID_FILE \<mapsto> ''17'']\<rparr>) = Some (Inr False, s'))"
proof -
  let ?live = "fresh\<lparr>files := [PID_FILE \<mapsto> ''4242'']\<rparr>"
  let ?stale = "fresh\<lparr>files := [PID_FILE \<mapsto> ''17'']\<rparr>"
  let ?R = "\<lambda>s. \<exists>txt pid process w1 args w2 pre post.
           files s PID_FILE = Some txt \<and> PID_FILE \<notin> denied s \<and>
           int_of_stripped sim txt = Inr pid \<and>
           psutil_Process sim pid (world s) = (Inr process, w1) \<and>
           process_cmdline sim process w1 = (Inr args, w2) \<and>
           join '' '' args = pre @ bot_marker @ post"
  have "contains (join '' '' [''python3'', ''teams_chatgpt_bot_captcha.py'']) bot_marker"
    by (simp add: bot_marker_def)
  then obtain pre post
    where pp: "join '' '' [''python3'', ''teams_chatgpt_bot_captcha.py''] = pre @ bot_marker @ post"
    using contains_iff by blast
  have "files ?live PID_FILE = Some ''4242'' \<and> PID_FILE \<notin> denied ?live \<and>
        int_of_stripped sim ''4242'' = Inr 4242 \<and>
        psutil_Process sim 4242 (world ?live) = (Inr 4242, 0) \<and>
        process_cmdline sim 4242 0 = (Inr [''python3'', ''teams_chatgpt_bot_captcha.py''], 0)"
    by (simp add: sim_def fresh_def)
  with pp have alive: "?R ?live" by blast
  have dead: "\<not> ?R ?stale"
    by (simp add: sim_def fresh_def)
  obtain b1 s1 where r1: "is_already_running sim ?live = Some (Inr b1, s1)" and i1: "b1 = ?R ?live"
    using is_already_running_spec [of sim ?live] by blast
  obtain b2 s2 where r2: "is_already_running sim ?stale = Some (Inr b2, s2)" and i2: "b2 = ?R ?stale"
    using is_already_running_spec [of sim ?stale] by blast
  from i1 alive have "b1" by simp
  moreover from i2 dead have "\<not> b2" by simp
  ultimately show ?thesis using r1 r2 by auto
qed

subsection \<open>Teardown\<close>

text \<open>
  Claim C8, as the code has it. \<^verbatim>\<open>stop\<close> closes the two sessions one after the
  other. When the Teams driver is set and its \<^verbatim>\<open>quit\<close> raises, the exception leaves
  \<^verbatim>\<open>stop\<close> at once: the history ends with that one \<^verbatim>\<open>quit\<close>, so no \<^verbatim>\<open>quit\<close>
  of the ChatGPT driver is attempted and the final log line is not written. When the Teams
  driver is unset or its \<^verbatim>\<open>quit\<close> returns, the \<^verbatim>\<open>quit\<close> of a set ChatGPT driver
  is attempted.
\<close>

theorem stop_sequential:
  "(teams_driver s = Some d1 \<and> quit E d1 (world s) = (Inl e, w') \<longrightarrow>
      stop E s = Some (Inl e, s\<lparr>world := w', calls := calls s @ [Quit d1],
                                logs := logs s @ [(INFO, ''Stopping bot...'')],
                                is_running := False\<rparr>)) \<and>
   ((teams_driver s = None \<or> (\<exists>d1 w'. teams_driver s = Some d1 \<and> quit E d1 (world s) = (Inr (), w'))) \<and>
    chatgpt_driver s = Some d2 \<longrightarrow>
      (\<exists>r s'. stop E s = Some (r, s') \<and> Quit d2 \<in> set (calls s')))"
  by (auto simp add: stop_def call_quit_def prog_defs logger_def split: prod.splits sum.splits option.splits)

theorem stop_sequential_witness:
  "stop sim_quit_fails (fresh\<lparr>teams_driver := Some 1, chatgpt_driver := Some 2\<rparr>) =
     Some (Inl (Exn WebDriverException ''Message: disconnected''),
           fresh\<lparr>teams_driver := Some 1, chatgpt_driver := Some 2,
                 calls := [Quit 1], logs := [(INFO, ''Stopping bot...'')]\<rparr>) \<and>
   (\<exists>r s'. stop sim (fresh\<lparr>teams_driver := Some 1, chatgpt_driver := Some 2\<rparr>) = Some (r, s') \<and>
            Quit 2 \<in> set (calls s'))"
proof -
  let ?s = "fresh\<lparr>teams_driver := Some 1, chatgpt_driver := Some 2\<rparr>"
  have a: "teams_driver ?s = Some 1 \<and>
           quit sim_quit_fails 1 (world ?s) = (Inl (Exn WebDriverException ''Message: disconnected''), 0)"
    by (simp add: sim_quit_fails_def sim_def fresh_def)
  have b: "(teams_driver ?s = None \<or> (\<exists>d1 w'. teams_driver ?s = Some d1 \<and> quit sim d1 (world ?s) = (Inr (), w'))) \<and>
           chatgpt_driver ?s = Some 2"
    by (simp add: sim_def fresh_def)
  from stop_sequential [of ?s 1 sim_quit_fails "Exn WebDriverException ''Message: disconnected''" 0 2] a
  have one: "stop sim_quit_fails ?s =
     Some (Inl (Exn WebDriverException ''Message: disconnected''),
           ?s\<lparr>world := 0, calls := calls ?s @ [Quit 1],
               logs := logs ?s @ [(INFO, ''Stopping bot...'')], is_running := False\<rparr>)"
    by blast
  from stop_sequential [of ?s 1 sim "Exn WebDriverException ''Message: disconnected''" 0 2] b
  have two: "\<exists>r s'. stop sim ?s = Some (r, s') \<and> Quit 2 \<in> set (calls s')"
    by blast
  from one two show ?thesis by (simp add: fresh_def)
qed

text \<open>
  The claim as stated, that a failure while closing the first session does not prevent the
  attempt to close the second, fails where the first driver cannot be shut down: the only
  call made is the \<^verbatim>\<open>quit\<close> of driver 1.
\<close>

theorem stop_first_failure_counterexample:
  "stop sim_quit_fails (fresh\<lparr>teams_driver := Some 1, chatgpt_driver := Some 2\<rparr>) =
     Some (Inl (Exn WebDriverException ''Message: disconnected''),
           fresh\<lparr>teams_driver := Some 1, chatgpt_driver := Some 2,
                 calls := [Quit 1], logs := [(INFO, ''Stopping bot...'')]\<rparr>) \<and>
   Quit 2 \<notin> set [Quit 1]"
  by (simp add: stop_def call_quit_def prog_defs logger_def sim_quit_fails_def sim_def fresh_def)

subsection \<open>A browser that cannot be constructed\<close>

text \<open>
  Claim C4, as the code has it. \<^verbatim>\<open>setup_driver\<close> handles nothing: an exception of
  the Chrome constructor leaves it unchanged, with no retry. The call of
  \<^verbatim>\<open>setup_driver\<close> is inside the \<^verbatim>\<open>try\<close> of each login method, so the login
  method catches whatever \<^verbatim>\<open>setup_driver\<close> raises, logs it as a login error with the
  exception's message and returns \<open>False\<close>; nothing is raised to the caller of the login.
\<close>

theorem setup_driver_failure_caught:
  "(webdriver_Chrome E (chrome_options_of config) (world s) = (Inl e, w') \<longrightarrow>
      setup_driver E config s =
        Some (Inl e, s\<lparr>world := w', calls := calls s @ [NewChrome (chrome_options_of config)]\<rparr>)) \<and>
   (setup_driver E config (logger INFO ''Starte Teams-Login...'' s) = Some (Inl e, s1) \<longrightarrow>
      login_to_teams E config s =
        Some (Inr False, logger ERROR (''Teams login error: '' @ exn_str e) s1)) \<and>
   (setup_driver E config (logger INFO ''Starte ChatGPT-Login...'' s) = Some (Inl e, s2) \<longrightarrow>
      login_to_chatgpt E config s =
        Some (Inr False, logger ERROR (''ChatGPT login error: '' @ exn_str e) s2))"
  by (simp add: login_to_teams_def login_to_teams_body_def login_to_chatgpt_def
        login_to_chatgpt_body_def setup_driver_def prog_defs)

theorem setup_driver_failure_caught_witness:
  "setup_driver sim_no_chrome full_config fresh =
     Some (Inl (Exn WebDriverException ''Message: unknown error: cannot find Chrome binary''),
           fresh\<lparr>calls := [NewChrome (chrome_options_of full_config)]\<rparr>) \<and>
   login_to_teams sim_no_chrome full_config fresh =
     Some (Inr False,
           fresh\<lparr>calls := [NewChrome (chrome_options_of full_config)],
                 logs := [(INFO, ''Starte Teams-Login...''),
                          (ERROR, ''Teams login error: Message: unknown error: cannot find Chrome binary'')]\<rparr>) \<and>
   login_to_chatgpt sim_no_chrome full_config fresh =
     Some (Inr False,
           fresh\<lparr>calls := [NewChrome (chrome_options_of full_config)],
                 logs := [(INFO, ''Starte ChatGPT-Login...''),
                          (ERROR, ''ChatGPT login error: Message: unknown error: cannot find Chrome binary'')]\<rparr>)"
proof -
  let ?e = "Exn WebDriverException ''Message: unknown error: cannot find Chrome binary''"
  let ?s1 = "fresh\<lparr>calls := [NewChrome (chrome_options_of full_config)],
                   logs := [(INFO, ''Starte Teams-Login...'')]\<rparr>"
  let ?s2 = "fresh\<lparr>calls := [NewChrome (chrome_options_of full_config)],
                   logs := [(INFO, ''Starte ChatGPT-Login...'')]\<rparr>"
  have h0: "webdriver_Chrome sim_no_chrome (chrome_options_of full_config) (world fresh) = (Inl ?e, 0)"
    by (simp add: sim_no_chrome_def sim_def fresh_def)
  have h1: "setup_driver sim_no_chrome full_config (logger INFO ''Starte Teams-Login...'' fresh) =
              Some (Inl ?e, ?s1)"
    by (simp add: setup_driver_def prog_defs logger_def sim_no_chrome_def sim_def fresh_def)
  have h2: "setup_driver sim_no_chrome full_config (logger INFO ''Starte ChatGPT-Login...'' fresh) =
              Some (Inl ?e, ?s2)"
    by (simp add: setup_driver_def prog_defs logger_def sim_no_chrome_def sim_def fresh_def)
  from setup_driver_failure_caught [of sim_no_chrome full_config fresh ?e 0 ?s1 ?s2] h0 h1 h2
  show ?thesis by (simp add: logger_def fresh_def)
qed

text \<open>
  The claim as stated, that the failure reaches the caller of the login sequence as an
  exception, fails on a machine without Chrome: \<^verbatim>\<open>setup_driver\<close> raises and
  \<^verbatim>\<open>login_to_teams\<close> returns \<open>False\<close>.
\<close>

theorem setup_driver_failure_counterexample:
  "setup_driver sim_no_chrome full_config (logger INFO ''Starte Teams-Login...'' fresh) =
     Some (Inl (Exn WebDriverException ''Message: unknown error: cannot find Chrome binary''),
           fresh\<lparr>calls := [NewChrome (chrome_options_of full_config)],
                 logs := [(INFO, ''Starte Teams-Login...'')]\<rparr>) \<and>
   login_to_teams sim_no_chrome full_config fresh =
     Some (Inr False,
           fresh\<lparr>calls := [NewChrome (chrome_options_of full_config)],
                 logs := [(INFO, ''Starte Teams-Login...''),
                          (ERROR, ''Teams login error: Message: unknown error: cannot find Chrome binary'')]\<rparr>)"
  by (simp add: login_to_teams_def login_to_teams_body_def setup_driver_def prog_defs logger_def
        sim_no_chrome_def sim_def fresh_def)

subsection \<open>Startup and the configuration file\<close>

text \<open>
  With a configuration file that holds a JSON object, \<^verbatim>\<open>main\<close> prints the fields that
  line 329 finds missing and returns, as soon as there is one; for credentials that are
  strings, as the configuration documents them, line 329 finds a field missing exactly
  when it is absent or the empty string.
\<close>

lemma main_missing_general:
  assumes "files s CONFIG_FILE = Some content" "CONFIG_FILE \<notin> denied s"
      and "json_loads E content = Inr (JObj config)"
      and "missing_fields config \<noteq> []"
  shows "main E upd s =
           Some (Inr (), s\<lparr>stdout := stdout s @ [missing_message (missing_fields config)]\<rparr>)"
  using assms
  by (simp add: main_def load_config_def path_exists_def read_file_def print_def prog_defs)

lemma missing_fields_strings:
  assumes "\<forall>f\<in>set credential_fields. \<forall>v. map_of config f = Some v \<longrightarrow> (\<exists>str. v = JStr str)"
  shows "missing_fields config =
           filter (\<lambda>f. map_of config f = None \<or> map_of config f = Some (JStr '''')) credential_fields"
  unfolding missing_fields_def
proof (rule filter_cong [OF refl])
  fix f assume "f \<in> set credential_fields"
  with assms have "\<forall>v. map_of config f = Some v \<longrightarrow> (\<exists>str. v = JStr str)" by blast
  then show "(\<not> truthy (dict_get config f JNull)) =
             (map_of config f = None \<or> map_of config f = Some (JStr ''''))"
    by (cases "map_of config f") (auto simp add: dict_get_def)
qed

text \<open>
  Claim C5. Let the configuration file hold a JSON object whose credential fields, where
  present, are strings, and let at least one of the four credential fields
  \<^verbatim>\<open>teams_email\<close>, \<^verbatim>\<open>teams_password\<close>, \<^verbatim>\<open>chatgpt_email\<close>,
  \<^verbatim>\<open>chatgpt_password\<close> be absent or empty. Then \<^verbatim>\<open>main\<close> returns normally, and the
  state it leaves differs from the initial one in one printed line only: the German
  request to fill in fields of \<^verbatim>\<open>bot_config.json\<close>, followed by exactly the absent or
  empty ones of the four names, in this order, separated by a comma and a blank. In
  particular the history of browser calls is unchanged: no driver was constructed and no
  login attempted.
\<close>

theorem main_missing_credentials:
  assumes "files s CONFIG_FILE = Some content" and "CONFIG_FILE \<notin> denied s"
      and "json_loads E content = Inr (JObj config)"
      and "\<forall>f\<in>set [''teams_email'', ''teams_password'', ''chatgpt_email'', ''chatgpt_password''].
             \<forall>v. map_of config f = Some v \<longrightarrow> (\<exists>str. v = JStr str)"
      and "\<exists>f\<in>set [''teams_email'', ''teams_password'', ''chatgpt_email'', ''chatgpt_password''].
             map_of config f = None \<or> map_of config f = Some (JStr [])"
  shows "main E upd s =
           Some (Inr (), s\<lparr>stdout := stdout s @
             [''Bitte folgende Felder in bot_config.json ausf'' @ [CHR 0xC3, CHR 0xBC] @
              ''llen: '' @
              join '', ''
                (filter (\<lambda>f. map_of config f = None \<or> map_of config f = Some (JStr []))
                   [''teams_email'', ''teams_password'', ''chatgpt_email'',
                    ''chatgpt_password''])]\<rparr>) \<and>
         join '', '' [] = [] \<and>
         (\<forall>f. join '', '' [f] = f) \<and>
         (\<forall>f g fs. join '', '' (f # g # fs) = f @ '', '' @ join '', '' (g # fs))"
proof -
  have strs: "\<forall>f\<in>set credential_fields. \<forall>v. map_of config f = Some v \<longrightarrow> (\<exists>str. v = JStr str)"
    using assms(4) by (simp add: credential_fields_def)
  have eq: "missing_fields config =
              filter (\<lambda>f. map_of config f = None \<or> map_of config f = Some (JStr [])) credential_fields"
    by (rule missing_fields_strings [OF strs])
  have "missing_fields config \<noteq> []"
    unfolding eq using assms(5) by (auto simp add: filter_empty_conv credential_fields_def)
  from main_missing_general [OF assms(1-3) this] show ?thesis
    by (simp add: eq missing_message_def CONFIG_FILE_def ausfuellen_def credential_fields_def)
qed

theorem main_missing_credentials_witness:
  "main sim no_update (fresh\<lparr>files := [CONFIG_FILE \<mapsto> ''partial'']\<rparr>) =
     Some (Inr (), fresh\<lparr>files := [CONFIG_FILE \<mapsto> ''partial''],
                         stdout := [''Bitte folgende Felder in bot_config.json ausf'' @
                                    [CHR 0xC3, CHR 0xBC] @
                                    ''llen: teams_password, chatgpt_password'']\<rparr>)"
proof -
  let ?s = "fresh\<lparr>files := [CONFIG_FILE \<mapsto> ''partial'']\<rparr>"
  let ?c = "[(''teams_email'', JStr ''a@b.c''), (''teams_password'', JStr []),
             (''chatgpt_email'', JStr ''d@e.f'')]"
  have 1: "files ?s CONFIG_FILE = Some ''partial''" by (simp add: fresh_def)
  have 2: "CONFIG_FILE \<notin> denied ?s" by (simp add: fresh_def)
  have 3: "json_loads sim ''partial'' = Inr (JObj ?c)" by (simp add: sim_def)
  have 4: "\<forall>f\<in>set [''teams_email'', ''teams_password'', ''chatgpt_email'', ''chatgpt_password''].
             \<forall>v. map_of ?c f = Some v \<longrightarrow> (\<exists>str. v = JStr str)"
    by simp
  have 5: "\<exists>f\<in>set [''teams_email'', ''teams_password'', ''chatgpt_email'', ''chatgpt_password''].
             map_of ?c f = None \<or> map_of ?c f = Some (JStr [])"
    by simp
  from main_missing_credentials [OF 1 2 3 4 5, of no_update] show ?thesis
    by (simp add: fresh_def)
qed

text \<open>
  Claim C6. When the configuration file does not exist (and may be created),
  \<^verbatim>\<open>load_config\<close> writes the dump of the default configuration to it, prints the
  notice and returns the defaults; \<^verbatim>\<open>main\<close> then finds all four credentials missing,
  prints their names and returns. The final state differs from the initial one in the new
  file and the two printed lines only, so no login was attempted. The defaults are empty
  credentials, trigger \<^verbatim>\<open>@bot\<close>, check interval 10, headless false, 3 retries and a
  retry delay of 30.
\<close>

theorem main_creates_default_config:
  assumes "files s CONFIG_FILE = None" and "CONFIG_FILE \<notin> denied s"
  shows "load_config E s =
           Some (Inr (JObj default_config),
                 s\<lparr>files := (files s)(CONFIG_FILE \<mapsto> json_dumps E (JObj default_config)),
                   stdout := stdout s @ [created_message]\<rparr>) \<and>
         main E upd s =
           Some (Inr (),
                 s\<lparr>files := (files s)(CONFIG_FILE \<mapsto> json_dumps E (JObj default_config)),
                   stdout := stdout s @ [created_message, missing_message credential_fields]\<rparr>) \<and>
         map_of default_config ''teams_email'' = Some (JStr '''') \<and>
         map_of default_config ''teams_password'' = Some (JStr '''') \<and>
         map_of default_config ''chatgpt_email'' = Some (JStr '''') \<and>
         map_of default_config ''chatgpt_password'' = Some (JStr '''') \<and>
         map_of default_config ''bot_trigger'' = Some (JStr ''@bot'') \<and>
         map_of default_config ''check_interval'' = Some (JInt 10) \<and>
         map_of default_config ''headless'' = Some (JBool False) \<and>
         map_of default_config ''max_retries'' = Some (JInt 3) \<and>
         map_of default_config ''retry_delay'' = Some (JInt 30) \<and>
         map fst default_config =
           [''teams_email'', ''teams_password'', ''chatgpt_email'', ''chatgpt_password'',
            ''bot_trigger'', ''check_interval'', ''headless'', ''max_retries'', ''retry_delay'']"
proof -
  have m: "missing_fields default_config = credential_fields"
    by (simp add: missing_fields_def credential_fields_def default_config_def dict_get_def)
  have l: "load_config E s =
           Some (Inr (JObj default_config),
                 s\<lparr>files := (files s)(CONFIG_FILE \<mapsto> json_dumps E (JObj default_config)),
                   stdout := stdout s @ [created_message]\<rparr>)"
    using assms by (simp add: load_config_def path_exists_def write_file_def print_def prog_defs)
  have "main E upd s =
           Some (Inr (),
                 s\<lparr>files := (files s)(CONFIG_FILE \<mapsto> json_dumps E (JObj default_config)),
                   stdout := stdout s @ [created_message, missing_message credential_fields]\<rparr>)"
    by (simp add: main_def bnd_def l m seq_def effect_def ret_def print_def credential_fields_def)
  with l show ?thesis by (simp add: default_config_def)
qed

theorem main_creates_default_config_witness:
  "main sim no_update fresh =
     Some (Inr (),
           fresh\<lparr>files := [CONFIG_FILE \<mapsto> json_dumps sim (JObj default_config)],
                 stdout := [created_message, missing_message credential_fields]\<rparr>)"
proof -
  have 1: "files fresh CONFIG_FILE = None" by (simp add: fresh_def)
  have 2: "CONFIG_FILE \<notin> denied fresh" by (simp add: fresh_def)
  from main_creates_default_config [OF 1 2, of sim no_update] show ?thesis
    by (simp add: fresh_def)
qed

subsection \<open>Statistics\<close>

lemma map_of_dict_set: "map_of (dict_set d k v) k' = (if k' = k then Some v else map_of d k')"
  by (induction d k v rule: dict_set.induct) auto



text \<open>
  Where the start time does not parse, \<^verbatim>\<open>save_stats\<close> writes nothing: the call still
  returns, with the counter and \<^verbatim>\<open>last_activity\<close> updated in memory, a warning in the
  log and every file as it was.
\<close>

lemma increment_without_persisting:
  assumes cnt: "dict_get (stats s) key (JInt 0) = JInt n"
      and key: "key \<noteq> ''start_time''"
      and c1: "datetime_now E (world s) = (t, w1)"
      and c2: "datetime_now E w1 = (t', w2)"
      and st: "map_of (stats s) ''start_time'' = Some v"
      and iso: "fromisoformat E v = Inl e"
  shows "increment E key s =
           Some (Inr (),
             s\<lparr>world := w2,
               stats := dict_set (dict_set (stats s) key (JInt (n + 1)))
                          ''last_activity'' (JStr (isoformat E t)),
               logs := logs s @ [(WARNING, ''Could not save stats: '' @ exn_str e)]\<rparr>)"
  using assms
  by (simp add: increment_def save_stats_def now_def subscript_def prog_defs logger_def
        map_of_dict_set)




subsection \<open>The idle loop and the signal handler\<close>

lemma deliver_is_running: "is_running (deliver sigs s) = is_running s"
  unfolding deliver_def
  by (induction sigs arbitrary: s) (simp_all add: signal_handler_def logger_def)

lemma idle_loop_no_exit:
  "idle_loop E config s = Some y \<Longrightarrow> is_running s \<longrightarrow> (\<exists>e s'. y = (Inl e, s'))"
proof (rule idle_loop.raw_induct
    [where P = "\<lambda>E config s y. is_running s \<longrightarrow> (\<exists>e s'. y = (Inl e, s'))"])
  fix f :: "'a env \<Rightarrow> dict \<Rightarrow> 'a state \<Rightarrow> ((py_exn + unit) \<times> 'a state) option"
    and E config s y
  assume IH: "\<And>E config s y. f E config s = Some y \<Longrightarrow>
                 is_running s \<longrightarrow> (\<exists>e s'. y = (Inl e, s'))"
    and body: "(if is_running s
      then case invoke (AsyncioSleep (dict_get config ''check_interval'' (JInt 10)))
                 (asyncio_sleep E (dict_get config ''check_interval'' (JInt 10))) s of
           (r, s') \<Rightarrow> (case r of Inl e \<Rightarrow> Some (Inl e, s')
                          | Inr sigs \<Rightarrow> f E config (deliver sigs s'))
      else Some (Inr (), s)) = Some y"
  show "is_running s \<longrightarrow> (\<exists>e s'. y = (Inl e, s'))"
  proof
    assume run: "is_running s"
    obtain r s1 where inv: "invoke (AsyncioSleep (dict_get config ''check_interval'' (JInt 10)))
                 (asyncio_sleep E (dict_get config ''check_interval'' (JInt 10))) s = (r, s1)"
      by (cases "invoke (AsyncioSleep (dict_get config ''check_interval'' (JInt 10)))
                 (asyncio_sleep E (dict_get config ''check_interval'' (JInt 10))) s")
    then have run1: "is_running s1"
      using run by (auto simp add: invoke_def split: prod.splits)
    show "\<exists>e s'. y = (Inl e, s')"
    proof (cases r)
      case (Inl e)
      with body run inv show ?thesis by auto
    next
      case (Inr sigs)
      with body run inv have "f E config (deliver sigs s1) = Some y" by simp
      from IH [OF this] run1 show ?thesis by (simp add: deliver_is_running)
    qed
  qed
qed

lemma idle_loop_diverges:
  "idle_loop E config s = Some y \<Longrightarrow>
     is_running s \<longrightarrow> (\<forall>v w. \<exists>sigs w'. asyncio_sleep E v w = (Inr sigs, w')) \<longrightarrow> False"
proof (rule idle_loop.raw_induct
    [where P = "\<lambda>E config s y. is_running s \<longrightarrow>
                  (\<forall>v w. \<exists>sigs w'. asyncio_sleep E v w = (Inr sigs, w')) \<longrightarrow> False"])
  fix f :: "'a env \<Rightarrow> dict \<Rightarrow> 'a state \<Rightarrow> ((py_exn + unit) \<times> 'a state) option"
    and E config s y
  assume IH: "\<And>E config s y. f E config s = Some y \<Longrightarrow>
                 is_running s \<longrightarrow>
                 (\<forall>v w. \<exists>sigs w'. asyncio_sleep E v w = (Inr sigs, w')) \<longrightarrow> False"
    and body: "(if is_running s
      then case invoke (AsyncioSleep (dict_get config ''check_interval'' (JInt 10)))
                 (asyncio_sleep E (dict_get config ''check_interval'' (JInt 10))) s of
           (r, s') \<Rightarrow> (case r of Inl e \<Rightarrow> Some (Inl e, s')
                          | Inr sigs \<Rightarrow> f E config (deliver sigs s'))
      else Some (Inr (), s)) = Some y"
  show "is_running s \<longrightarrow> (\<forall>v w. \<exists>sigs w'. asyncio_sleep E v w = (Inr sigs, w')) \<longrightarrow> False"
  proof (intro impI)
    assume run: "is_running s"
      and ok: "\<forall>v w. \<exists>sigs w'. asyncio_sleep E v w = (Inr sigs, w')"
    from ok obtain sigs w'
      where sl: "asyncio_sleep E (dict_get config ''check_interval'' (JInt 10)) (world s) = (Inr sigs, w')"
      by blast
    define s1 where "s1 = s\<lparr>world := w',
        calls := calls s @ [AsyncioSleep (dict_get config ''check_interval'' (JInt 10))]\<rparr>"
    have run1: "is_running (deliver sigs s1)" using run by (simp add: deliver_is_running s1_def)
    from body run sl have "f E config (deliver sigs s1) = Some y"
      by (simp add: invoke_def s1_def)
    from IH [OF this] run1 ok show False by blast
  qed
qed

text \<open>
  Claim C1, what the code does. The loop of \<^verbatim>\<open>start\<close> tests
  \<^verbatim>\<open>TeamsBot.is_running\<close>; the signal handler writes \<^verbatim>\<open>ProcessManager.running\<close>.
  So once the loop is entered it never ends normally, whatever signals arrive during its
  sleeps; and where no sleep raises it never ends at all: \<^verbatim>\<open>start\<close> does not return,
  the \<^verbatim>\<open>finally\<close> of \<^verbatim>\<open>main\<close> is not reached and \<^verbatim>\<open>stop\<close> is not called.
\<close>

theorem idle_loop_ignores_signals:
  assumes "is_running s"
  shows "(\<forall>s'. idle_loop E config s \<noteq> Some (Inr (), s')) \<and>
         ((\<forall>v w. \<exists>sigs w'. asyncio_sleep E v w = (Inr sigs, w')) \<longrightarrow>
            idle_loop E config s = None)"
proof
  show "\<forall>s'. idle_loop E config s \<noteq> Some (Inr (), s')"
    using idle_loop_no_exit [of E config s] assms by auto
  show "(\<forall>v w. \<exists>sigs w'. asyncio_sleep E v w = (Inr sigs, w')) \<longrightarrow> idle_loop E config s = None"
    using idle_loop_diverges [of E config s] assms by (cases "idle_loop E config s") auto
qed

theorem idle_loop_ignores_signals_witness:
  "is_running (fresh\<lparr>is_running := True\<rparr>) \<and>
   asyncio_sleep sim (JInt 10) 0 = (Inr [SIGTERM], 1) \<and>
   idle_loop sim full_config (fresh\<lparr>is_running := True\<rparr>) = None"
proof -
  have r: "is_running (fresh\<lparr>is_running := True\<rparr>)" by simp
  have ok: "\<forall>v w. \<exists>sigs w'. asyncio_sleep sim v w = (Inr sigs, w')" by (simp add: sim_def)
  from idle_loop_ignores_signals [OF r, of sim full_config] ok
  show ?thesis by (simp add: sim_def)
qed

text \<open>
  The PID file: \<^verbatim>\<open>cleanup_pid\<close> has no caller in the module, and \<^verbatim>\<open>stop\<close>, when
  it does run, leaves every file as it was.
\<close>

lemma stop_keeps_files: "stop E s = Some (r, s') \<Longrightarrow> files s' = files s"
  by (auto simp add: stop_def call_quit_def prog_defs logger_def
        split: prod.splits sum.splits option.splits)

subsection \<open>Termination and failure, step by step\<close>































subsection \<open>A login whose marker never appears\<close>






subsection \<open>The driver attributes after a failed login\<close>

lemma keeps_drivers_ret: "keeps_drivers (ret x)"
  by (simp add: keeps_drivers_def ret_def)

lemma keeps_drivers_raise: "keeps_drivers (raise e)"
  by (simp add: keeps_drivers_def raise_def)

lemma keeps_drivers_invoke: "keeps_drivers (lift (invoke c f))"
  by (auto simp add: keeps_drivers_def lift_def invoke_def split: prod.splits)

lemma keeps_drivers_logger: "keeps_drivers (effect (logger lv msg))"
  by (auto simp add: keeps_drivers_def effect_def logger_def)

lemma keeps_drivers_bnd:
  assumes "keeps_drivers m" and "\<And>x. keeps_drivers (k x)"
  shows "keeps_drivers (bnd m k)"
  unfolding keeps_drivers_def
proof (intro allI impI)
  fix s r s'
  assume run: "bnd m k s = Some (r, s')"
  then obtain r1 s1 where m: "m s = Some (r1, s1)"
    by (cases "m s") (auto simp add: bnd_def)
  with assms(1) have k1: "teams_driver s1 = teams_driver s \<and> chatgpt_driver s1 = chatgpt_driver s"
    by (simp add: keeps_drivers_def)
  show "teams_driver s' = teams_driver s \<and> chatgpt_driver s' = chatgpt_driver s"
  proof (cases r1)
    case (Inl e)
    with run m have "s' = s1" by (simp add: bnd_def)
    with k1 show ?thesis by simp
  next
    case (Inr x)
    with run m have "k x s1 = Some (r, s')" by (simp add: bnd_def)
    with assms(2) [of x] have "teams_driver s' = teams_driver s1 \<and> chatgpt_driver s' = chatgpt_driver s1"
      by (simp add: keeps_drivers_def)
    with k1 show ?thesis by simp
  qed
qed

lemma keeps_drivers_seq: "keeps_drivers m \<Longrightarrow> keeps_drivers n \<Longrightarrow> keeps_drivers (seq m n)"
  by (simp add: seq_def keeps_drivers_bnd)

lemma keeps_drivers_try_except:
  assumes "keeps_drivers m" and "\<And>e. keeps_drivers (h e)"
  shows "keeps_drivers (try_except m c h)"
  unfolding keeps_drivers_def
proof (intro allI impI)
  fix s r s'
  assume run: "try_except m c h s = Some (r, s')"
  then obtain r1 s1 where m: "m s = Some (r1, s1)"
    by (cases "m s") (auto simp add: try_except_def)
  with assms(1) have k1: "teams_driver s1 = teams_driver s \<and> chatgpt_driver s1 = chatgpt_driver s"
    by (simp add: keeps_drivers_def)
  show "teams_driver s' = teams_driver s \<and> chatgpt_driver s' = chatgpt_driver s"
  proof (cases r1)
    case (Inr x)
    with run m have "s' = s1" by (simp add: try_except_def)
    with k1 show ?thesis by simp
  next
    case (Inl e)
    show ?thesis
    proof (cases "c e")
      case True
      with Inl run m have "h e s1 = Some (r, s')" by (simp add: try_except_def)
      with assms(2) [of e] have "teams_driver s' = teams_driver s1 \<and> chatgpt_driver s' = chatgpt_driver s1"
        by (simp add: keeps_drivers_def)
      with k1 show ?thesis by simp
    next
      case False
      with Inl run m have "s' = s1" by (simp add: try_except_def)
      with k1 show ?thesis by simp
    qed
  qed
qed

lemma keeps_drivers_subscript: "keeps_drivers (subscript d k)"
  by (cases "map_of d k") (simp_all add: subscript_def keeps_drivers_raise keeps_drivers_ret)

lemma keeps_drivers_fill: "keeps_drivers (fill E x config k)"
  unfolding fill_def call_clear_def call_send_keys_def
  by (intro keeps_drivers_seq keeps_drivers_bnd keeps_drivers_invoke keeps_drivers_subscript)

lemma keeps_drivers_press: "keeps_drivers (press E d b)"
  unfolding press_def call_find_element_def call_click_def
  by (intro keeps_drivers_bnd keeps_drivers_invoke)

lemma keeps_drivers_detect_captcha: "keeps_drivers (detect_captcha E d)"
  unfolding detect_captcha_def captcha_probe_def call_find_elements_def
  by (intro keeps_drivers_try_except keeps_drivers_bnd keeps_drivers_invoke)
     (auto intro!: keeps_drivers_ret keeps_drivers_seq keeps_drivers_logger keeps_drivers_bnd
        keeps_drivers_invoke)

lemma call_time_sleep_drivers:
  "teams_driver (call_time_sleep E n s) = teams_driver s \<and>
   chatgpt_driver (call_time_sleep E n s) = chatgpt_driver s"
  by (simp add: call_time_sleep_def invoke_def)

lemma captcha_wait_drivers:
  "captcha_wait E d s = Some y \<Longrightarrow>
     teams_driver (snd y) = teams_driver s \<and> chatgpt_driver (snd y) = chatgpt_driver s"
proof (rule captcha_wait.raw_induct
    [where P = "\<lambda>E d s y. teams_driver (snd y) = teams_driver s \<and>
                           chatgpt_driver (snd y) = chatgpt_driver s"])
  fix f :: "'a env \<Rightarrow> drv \<Rightarrow> 'a state \<Rightarrow> ((py_exn + unit) \<times> 'a state) option"
    and E d s y
  assume IH: "\<And>E d s y. f E d s = Some y \<Longrightarrow>
                 teams_driver (snd y) = teams_driver s \<and> chatgpt_driver (snd y) = chatgpt_driver s"
    and body: "(case detect_captcha E d s of
        None \<Rightarrow> None
      | Some (r, s') \<Rightarrow>
          (case r of
             Inl e \<Rightarrow> Some (Inl e, s')
           | Inr found \<Rightarrow>
               if found then f E d (call_time_sleep E 5 s')
               else Some (Inr (), s'))) = Some y"
  from body obtain r s1 where dc: "detect_captcha E d s = Some (r, s1)"
    by (cases "detect_captcha E d s") auto
  with keeps_drivers_detect_captcha [of E d]
  have k1: "teams_driver s1 = teams_driver s \<and> chatgpt_driver s1 = chatgpt_driver s"
    by (simp add: keeps_drivers_def)
  show "teams_driver (snd y) = teams_driver s \<and> chatgpt_driver (snd y) = chatgpt_driver s"
  proof (cases r)
    case (Inl e)
    with body dc have "y = (Inl e, s1)" by simp
    with k1 show ?thesis by simp
  next
    case (Inr found)
    show ?thesis
    proof (cases found)
      case True
      with Inr body dc have "f E d (call_time_sleep E 5 s1) = Some y" by simp
      from IH [OF this] k1 show ?thesis by (simp add: call_time_sleep_drivers)
    next
      case False
      with Inr body dc have "y = (Inr (), s1)" by simp
      with k1 show ?thesis by simp
    qed
  qed
qed

lemma keeps_drivers_captcha_wait: "keeps_drivers (captcha_wait E d)"
  unfolding keeps_drivers_def
proof (intro allI impI)
  fix s r s'
  assume "captcha_wait E d s = Some (r, s')"
  from captcha_wait_drivers [OF this]
  show "teams_driver s' = teams_driver s \<and> chatgpt_driver s' = chatgpt_driver s" by simp
qed

lemma keeps_drivers_captcha_gate: "keeps_drivers (captcha_gate E d)"
  unfolding captcha_gate_def
proof (rule keeps_drivers_bnd [OF keeps_drivers_detect_captcha])
  fix found
  show "keeps_drivers (if found then captcha_wait E d else ret ())"
    by (simp add: keeps_drivers_captcha_wait keeps_drivers_ret)
qed

lemma keeps_drivers_teams_login_steps: "keeps_drivers (teams_login_steps E config d)"
  unfolding teams_login_steps_def call_get_def call_wait_until_def call_click_def
  by (intro keeps_drivers_seq keeps_drivers_bnd keeps_drivers_try_except keeps_drivers_invoke
        keeps_drivers_fill keeps_drivers_press keeps_drivers_logger keeps_drivers_ret
        keeps_drivers_captcha_gate)

lemma keeps_drivers_chatgpt_login_steps: "keeps_drivers (chatgpt_login_steps E config d)"
  unfolding chatgpt_login_steps_def call_get_def call_wait_until_def call_click_def
  by (intro keeps_drivers_seq keeps_drivers_bnd keeps_drivers_try_except keeps_drivers_invoke
        keeps_drivers_fill keeps_drivers_press keeps_drivers_logger keeps_drivers_ret
        keeps_drivers_captcha_gate)

lemma login_to_teams_failed:
  assumes "setup_driver E config (logger INFO ''Starte Teams-Login...'' s) = Some (Inr d, s1)"
      and "teams_login_steps E config d (s1\<lparr>teams_driver := Some d\<rparr>) = Some (Inl e, s2)"
  shows "login_to_teams E config s =
           Some (Inr False, logger ERROR (''Teams login error: '' @ exn_str e) s2)"
    and "teams_driver s2 = Some d"
proof -
  show "login_to_teams E config s =
           Some (Inr False, logger ERROR (''Teams login error: '' @ exn_str e) s2)"
    using assms by (simp add: login_to_teams_def login_to_teams_body_def prog_defs)
  from keeps_drivers_teams_login_steps [of E config d] assms(2)
  show "teams_driver s2 = Some d" by (simp add: keeps_drivers_def)
qed

lemma login_to_chatgpt_failed:
  assumes "setup_driver E config (logger INFO ''Starte ChatGPT-Login...'' s) = Some (Inr d, s1)"
      and "chatgpt_login_steps E config d (s1\<lparr>chatgpt_driver := Some d\<rparr>) = Some (Inl e, s2)"
  shows "login_to_chatgpt E config s =
           Some (Inr False, logger ERROR (''ChatGPT login error: '' @ exn_str e) s2)"
    and "chatgpt_driver s2 = Some d"
proof -
  show "login_to_chatgpt E config s =
           Some (Inr False, logger ERROR (''ChatGPT login error: '' @ exn_str e) s2)"
    using assms by (simp add: login_to_chatgpt_def login_to_chatgpt_body_def prog_defs)
  from keeps_drivers_chatgpt_login_steps [of E config d] assms(2)
  show "chatgpt_driver s2 = Some d" by (simp add: keeps_drivers_def)
qed

lemma stop_quits_teams_driver:
  "teams_driver s = Some d \<Longrightarrow> \<exists>r s'. stop E s = Some (r, s') \<and> Quit d \<in> set (calls s')"
  by (auto simp add: stop_def call_quit_def prog_defs logger_def
        split: prod.splits sum.splits option.splits)

lemma stop_quits_chatgpt_driver:
  "chatgpt_driver s = Some d \<Longrightarrow>
   teams_driver s = None \<or> (\<exists>d1 w'. teams_driver s = Some d1 \<and> quit E d1 (world s) = (Inr (), w')) \<Longrightarrow>
   \<exists>r s'. stop E s = Some (r, s') \<and> Quit d \<in> set (calls s')"
  by (auto simp add: stop_def call_quit_def prog_defs logger_def
        split: prod.splits sum.splits option.splits)

lemma run_bot_after_failed_teams_login:
  assumes "login_to_teams E config (logger INFO ''Starting Teams-ChatGPT Bot...'' s) =
             Some (Inr False, s3)"
      and "teams_driver s3 = Some d"
  shows "\<exists>r s'. run_bot E config s = Some (r, s') \<and> Quit d \<in> set (calls s')"
proof -
  let ?s4 = "logger ERROR ''Failed to login to Teams'' s3"
  have st: "start E config s = Some (Inr (), ?s4)"
    using assms(1) by (simp add: start_def seq_def bnd_def effect_def ret_def)
  have "teams_driver ?s4 = Some d" using assms(2) by (simp add: logger_def)
  from stop_quits_teams_driver [OF this, of E]
  obtain r s' where sp: "stop E ?s4 = Some (r, s')" and q: "Quit d \<in> set (calls s')" by blast
  have "\<exists>r'. run_bot E config s = Some (r', s')"
    using st sp by (cases r) (simp_all add: run_bot_def try_finally_def try_except_def)
  with q show ?thesis by blast
qed

text \<open>
  Claim C10, as the code has it. Let \<^verbatim>\<open>setup_driver\<close> return the driver \<open>d\<close> and
  let a later step of the login raise \<open>e\<close>. Then \<^verbatim>\<open>login_to_teams\<close> (and in the same
  way \<^verbatim>\<open>login_to_chatgpt\<close>) returns \<open>False\<close> and its driver attribute still holds
  \<open>d\<close>. After a failed Teams login inside \<^verbatim>\<open>start\<close>, the part of \<^verbatim>\<open>main\<close> that
  runs the bot returns or raises with \<^verbatim>\<open>quit\<close> of \<open>d\<close> in its history: the
  \<^verbatim>\<open>finally\<close> block calls \<^verbatim>\<open>stop\<close>, which attempts that \<^verbatim>\<open>quit\<close> first. For a
  ChatGPT driver \<^verbatim>\<open>stop\<close> attempts the \<^verbatim>\<open>quit\<close> when the Teams driver is unset or
  its own \<^verbatim>\<open>quit\<close> returned.
\<close>

theorem failed_login_keeps_driver:
  "(setup_driver E config (logger INFO ''Starte Teams-Login...'' s) = Some (Inr d, s1) \<and>
    teams_login_steps E config d (s1\<lparr>teams_driver := Some d\<rparr>) = Some (Inl e, s2) \<longrightarrow>
      login_to_teams E config s =
        Some (Inr False, logger ERROR (''Teams login error: '' @ exn_str e) s2) \<and>
      teams_driver (logger ERROR (''Teams login error: '' @ exn_str e) s2) = Some d) \<and>
   (setup_driver E config (logger INFO ''Starte ChatGPT-Login...'' s) = Some (Inr d, s1) \<and>
    chatgpt_login_steps E config d (s1\<lparr>chatgpt_driver := Some d\<rparr>) = Some (Inl e, s2) \<longrightarrow>
      login_to_chatgpt E config s =
        Some (Inr False, logger ERROR (''ChatGPT login error: '' @ exn_str e) s2) \<and>
      chatgpt_driver (logger ERROR (''ChatGPT login error: '' @ exn_str e) s2) = Some d) \<and>
   (setup_driver E config
      (logger INFO ''Starte Teams-Login...'' (logger INFO ''Starting Teams-ChatGPT Bot...'' s)) =
      Some (Inr d, s1) \<and>
    teams_login_steps E config d (s1\<lparr>teams_driver := Some d\<rparr>) = Some (Inl e, s2) \<longrightarrow>
      (\<exists>r s'. run_bot E config s = Some (r, s') \<and> Quit d \<in> set (calls s'))) \<and>
   (chatgpt_driver s = Some d \<and>
    (teams_driver s = None \<or>
     (\<exists>d1 w'. teams_driver s = Some d1 \<and> quit E d1 (world s) = (Inr (), w'))) \<longrightarrow>
      (\<exists>r s'. stop E s = Some (r, s') \<and> Quit d \<in> set (calls s')))"
proof (intro conjI impI)
  assume h: "setup_driver E config (logger INFO ''Starte Teams-Login...'' s) = Some (Inr d, s1) \<and>
    teams_login_steps E config d (s1\<lparr>teams_driver := Some d\<rparr>) = Some (Inl e, s2)"
  from login_to_teams_failed [OF conjunct1 [OF h] conjunct2 [OF h]]
  show "login_to_teams E config s =
        Some (Inr False, logger ERROR (''Teams login error: '' @ exn_str e) s2)"
    and "teams_driver (logger ERROR (''Teams login error: '' @ exn_str e) s2) = Some d"
    by (simp_all add: logger_def)
next
  assume h: "setup_driver E config (logger INFO ''Starte ChatGPT-Login...'' s) = Some (Inr d, s1) \<and>
    chatgpt_login_steps E config d (s1\<lparr>chatgpt_driver := Some d\<rparr>) = Some (Inl e, s2)"
  from login_to_chatgpt_failed [OF conjunct1 [OF h] conjunct2 [OF h]]
  show "login_to_chatgpt E config s =
        Some (Inr False, logger ERROR (''ChatGPT login error: '' @ exn_str e) s2)"
    and "chatgpt_driver (logger ERROR (''ChatGPT login error: '' @ exn_str e) s2) = Some d"
    by (simp_all add: logger_def)
next
  assume h: "setup_driver E config
      (logger INFO ''Starte Teams-Login...'' (logger INFO ''Starting Teams-ChatGPT Bot...'' s)) =
      Some (Inr d, s1) \<and>
    teams_login_steps E config d (s1\<lparr>teams_driver := Some d\<rparr>) = Some (Inl e, s2)"
  from login_to_teams_failed [OF conjunct1 [OF h] conjunct2 [OF h]]
  have "login_to_teams E config (logger INFO ''Starting Teams-ChatGPT Bot...'' s) =
          Some (Inr False, logger ERROR (''Teams login error: '' @ exn_str e) s2)"
    and "teams_driver (logger ERROR (''Teams login error: '' @ exn_str e) s2) = Some d"
    by (simp_all add: logger_def)
  then show "\<exists>r s'. run_bot E config s = Some (r, s') \<and> Quit d \<in> set (calls s')"
    by (rule run_bot_after_failed_teams_login)
next
  assume h: "chatgpt_driver s = Some d \<and>
    (teams_driver s = None \<or>
     (\<exists>d1 w'. teams_driver s = Some d1 \<and> quit E d1 (world s) = (Inr (), w')))"
  from stop_quits_chatgpt_driver [OF conjunct1 [OF h] conjunct2 [OF h]]
  show "\<exists>r s'. stop E s = Some (r, s') \<and> Quit d \<in> set (calls s')" .
qed

theorem failed_login_keeps_driver_witness:
  "(\<exists>s3. login_to_teams sim_no_page full_config fresh = Some (Inr False, s3) \<and>
          teams_driver s3 = Some 1) \<and>
   (\<exists>s3. login_to_chatgpt sim_chatgpt_down full_config fresh = Some (Inr False, s3) \<and>
          chatgpt_driver s3 = Some 1) \<and>
   (\<exists>r s'. run_bot sim_no_page full_config fresh = Some (r, s') \<and> Quit 1 \<in> set (calls s')) \<and>
   (\<exists>r s'. stop sim (fresh\<lparr>chatgpt_driver := Some 2\<rparr>) = Some (r, s') \<and> Quit 2 \<in> set (calls s'))"
proof -
  let ?opts = "chrome_options_of full_config"
  let ?built = "[NewChrome ?opts, SetPageLoadTimeout 1 30, ImplicitlyWait 1 10]"
  let ?e = "Exn TimeoutException ''Message: timeout''"
  let ?t1 = "fresh\<lparr>world := 1, calls := ?built, logs := [(INFO, ''Starte Teams-Login...'')]\<rparr>"
  let ?t2 = "fresh\<lparr>world := 1, calls := ?built @ [Get 1 ''https://teams.microsoft.com''],
                   logs := [(INFO, ''Starte Teams-Login...'')], teams_driver := Some 1\<rparr>"
  have a1: "setup_driver sim_no_page full_config (logger INFO ''Starte Teams-Login...'' fresh) =
              Some (Inr 1, ?t1)"
    by (simp add: setup_driver_def prog_defs logger_def sim_no_page_def sim_def fresh_def)
  have a2: "teams_login_steps sim_no_page full_config 1 (?t1\<lparr>teams_driver := Some 1\<rparr>) =
              Some (Inl ?e, ?t2)"
    by (simp add: teams_login_steps_def call_get_def prog_defs sim_no_page_def sim_def fresh_def)
  from failed_login_keeps_driver [of sim_no_page full_config fresh 1 ?t1 ?e ?t2] a1 a2
  have one: "\<exists>s3. login_to_teams sim_no_page full_config fresh = Some (Inr False, s3) \<and>
          teams_driver s3 = Some 1"
    by blast
  let ?c1 = "fresh\<lparr>world := 1, calls := ?built, logs := [(INFO, ''Starte ChatGPT-Login...'')]\<rparr>"
  let ?c2 = "fresh\<lparr>world := 1, calls := ?built @ [Get 1 ''https://chat.openai.com''],
                   logs := [(INFO, ''Starte ChatGPT-Login...'')], chatgpt_driver := Some 1\<rparr>"
  have b1: "setup_driver sim_chatgpt_down full_config (logger INFO ''Starte ChatGPT-Login...'' fresh) =
              Some (Inr 1, ?c1)"
    by (simp add: setup_driver_def prog_defs logger_def sim_chatgpt_down_def sim_def fresh_def)
  have b2: "chatgpt_login_steps sim_chatgpt_down full_config 1 (?c1\<lparr>chatgpt_driver := Some 1\<rparr>) =
              Some (Inl ?e, ?c2)"
    by (simp add: chatgpt_login_steps_def call_get_def prog_defs sim_chatgpt_down_def sim_def
          fresh_def)
  from failed_login_keeps_driver [of sim_chatgpt_down full_config fresh 1 ?c1 ?e ?c2] b1 b2
  have two: "\<exists>s3. login_to_chatgpt sim_chatgpt_down full_config fresh = Some (Inr False, s3) \<and>
          chatgpt_driver s3 = Some 1"
    by blast
  let ?r1 = "fresh\<lparr>world := 1, calls := ?built,
                   logs := [(INFO, ''Starting Teams-ChatGPT Bot...''),
                            (INFO, ''Starte Teams-Login...'')]\<rparr>"
  let ?r2 = "fresh\<lparr>world := 1, calls := ?built @ [Get 1 ''https://teams.microsoft.com''],
                   logs := [(INFO, ''Starting Teams-ChatGPT Bot...''),
                            (INFO, ''Starte Teams-Login...'')], teams_driver := Some 1\<rparr>"
  have c1: "setup_driver sim_no_page full_config
              (logger INFO ''Starte Teams-Login...''
                 (logger INFO ''Starting Teams-ChatGPT Bot...'' fresh)) = Some (Inr 1, ?r1)"
    by (simp add: setup_driver_def prog_defs logger_def sim_no_page_def sim_def fresh_def)
  have c2: "teams_login_steps sim_no_page full_config 1 (?r1\<lparr>teams_driver := Some 1\<rparr>) =
              Some (Inl ?e, ?r2)"
    by (simp add: teams_login_steps_def call_get_def prog_defs sim_no_page_def sim_def fresh_def)
  from failed_login_keeps_driver [of sim_no_page full_config fresh 1 ?r1 ?e ?r2] c1 c2
  have three: "\<exists>r s'. run_bot sim_no_page full_config fresh = Some (r, s') \<and>
                  Quit 1 \<in> set (calls s')"
    by blast
  have d1: "chatgpt_driver (fresh\<lparr>chatgpt_driver := Some 2\<rparr>) = Some 2 \<and>
            (teams_driver (fresh\<lparr>chatgpt_driver := Some 2\<rparr>) = None \<or>
             (\<exists>d1 w'. teams_driver (fresh\<lparr>chatgpt_driver := Some 2\<rparr>) = Some d1 \<and>
                quit sim d1 (world (fresh\<lparr>chatgpt_driver := Some 2\<rparr>)) = (Inr (), w')))"
    by (simp add: fresh_def)
  from failed_login_keeps_driver [of sim full_config "fresh\<lparr>chatgpt_driver := Some 2\<rparr>" 2] d1
  have four: "\<exists>r s'. stop sim (fresh\<lparr>chatgpt_driver := Some 2\<rparr>) = Some (r, s') \<and>
                 Quit 2 \<in> set (calls s')"
    by blast
  from one two three four show ?thesis by blast
qed

text \<open>
  The claim as stated promises the attempt for the ChatGPT driver as well. It fails where
  the Teams login has succeeded, the ChatGPT page does not load and the Teams driver
  cannot be shut down: \<^verbatim>\<open>login_to_chatgpt\<close> returns \<open>False\<close> with driver 2 still in
  \<^verbatim>\<open>chatgpt_driver\<close>, and \<^verbatim>\<open>stop\<close> ends at the \<^verbatim>\<open>quit\<close> of driver 1.
\<close>

theorem failed_chatgpt_login_not_quit_counterexample:
  "login_to_chatgpt sim_chatgpt_down full_config (fresh\<lparr>world := 1, teams_driver := Some 1\<rparr>) =
     Some (Inr False,
           fresh\<lparr>world := 2, teams_driver := Some 1, chatgpt_driver := Some 2,
                 calls := [NewChrome (chrome_options_of full_config), SetPageLoadTimeout 2 30,
                           ImplicitlyWait 2 10, Get 2 ''https://chat.openai.com''],
                 logs := [(INFO, ''Starte ChatGPT-Login...''),
                          (ERROR, ''ChatGPT login error: Message: timeout'')]\<rparr>) \<and>
   stop sim_chatgpt_down
     (fresh\<lparr>world := 2, teams_driver := Some 1, chatgpt_driver := Some 2,
            calls := [NewChrome (chrome_options_of full_config), SetPageLoadTimeout 2 30,
                      ImplicitlyWait 2 10, Get 2 ''https://chat.openai.com''],
            logs := [(INFO, ''Starte ChatGPT-Login...''),
                     (ERROR, ''ChatGPT login error: Message: timeout'')]\<rparr>) =
     Some (Inl (Exn WebDriverException ''Message: disconnected''),
           fresh\<lparr>world := 2, teams_driver := Some 1, chatgpt_driver := Some 2,
                 calls := [NewChrome (chrome_options_of full_config), SetPageLoadTimeout 2 30,
                           ImplicitlyWait 2 10, Get 2 ''https://chat.openai.com'', Quit 1],
                 logs := [(INFO, ''Starte ChatGPT-Login...''),
                          (ERROR, ''ChatGPT login error: Message: timeout''),
                          (INFO, ''Stopping bot...'')]\<rparr>) \<and>
   Quit 2 \<notin> set [NewChrome (chrome_options_of full_config), SetPageLoadTimeout 2 30,
                   ImplicitlyWait 2 10, Get 2 ''https://chat.openai.com'', Quit 1]"
  by (simp add: login_to_chatgpt_def login_to_chatgpt_body_def chatgpt_login_steps_def
        setup_driver_def stop_def call_get_def call_quit_def prog_defs logger_def
        sim_chatgpt_down_def sim_def fresh_def)

end
